theory Spec2Isabelle
  imports Main "HOL-Library.Monad_Syntax"
begin

section \<open>Python values\<close>

text \<open>
  The bank system is written in Python, so every amount, balance and dictionary entry is a
  dynamically typed value. The exceptions that the modelled code can raise are values of
  \<open>exn\<close>; a computation that may raise has a result of type \<open>exn + 'a\<close>, with \<open>Inl\<close>
  for the exception.
\<close>

datatype exn =
    TypeError string
  | ValueError string
  | KeyError string
  | OverflowError string
  | ZeroDivisionError string

definition quoted :: "string \<Rightarrow> string" where
  "quoted s = [CHR 0x27] @ s @ [CHR 0x27]"

fun exn_str :: "exn \<Rightarrow> string" where
  "exn_str (TypeError m) = m"
| "exn_str (ValueError m) = m"
| "exn_str (KeyError k) = quoted k"
| "exn_str (OverflowError m) = m"
| "exn_str (ZeroDivisionError m) = m"

subsection \<open>Binary64 floating point\<close>

text \<open>
  A Python \<open>float\<close> is an IEEE 754 binary64 number. \<open>Finite m e\<close> is the number
  \<open>m * 2 ^ e\<close>, kept in the canonical form of the format: \<open>2 ^ 52 \<le> \<bar>m\<bar> < 2 ^ 53\<close>
  and \<open>- 1074 \<le> e \<le> 971\<close> for a normal number, \<open>\<bar>m\<bar> < 2 ^ 52\<close> and \<open>e = - 1074\<close> for
  a subnormal number and for zero. The sign of zero is not represented: none of the modelled
  operations tells \<open>-0.0\<close> from \<open>0.0\<close>. Every arithmetic operation computes the exact
  result as a ratio of integers and rounds it to the nearest representable number, ties to
  the even mantissa (\<open>float_of_ratio\<close>).
\<close>

datatype pyfloat = Finite int int | PosInf | NegInf | NaN

fun bit_length :: "nat \<Rightarrow> nat" where
  "bit_length n = (if n = 0 then 0 else Suc (bit_length (n div 2)))"

declare bit_length.simps [simp del]

fun num_bits :: "num \<Rightarrow> nat" where
  \<comment> \<open>the number of binary digits of a numeral, which is its \<open>bit_length\<close>\<close>
  "num_bits num.One = 1"
| "num_bits (num.Bit0 k) = Suc (num_bits k)"
| "num_bits (num.Bit1 k) = Suc (num_bits k)"

definition round_pick :: "int \<Rightarrow> int \<Rightarrow> int \<Rightarrow> int" where
  \<comment> \<open>the quotient \<open>d\<close> or its successor, by the remainder \<open>r\<close> of a division by \<open>b\<close>\<close>
  "round_pick d r b =
     (if 2 * r < b then d else if b < 2 * r then d + 1 else if even d then d else d + 1)"

definition round_half_even_div :: "int \<Rightarrow> int \<Rightarrow> int" where
  \<comment> \<open>the integer nearest to \<open>a / b\<close> for \<open>0 < b\<close>, a tie going to the even one\<close>
  "round_half_even_div a b = round_pick (a div b) (a mod b) b"

definition ilog2_adjust :: "int \<Rightarrow> int \<Rightarrow> int \<Rightarrow> int" where
  "ilog2_adjust p q k =
     (if (if 0 \<le> k then q * 2 ^ nat k \<le> p else q \<le> p * 2 ^ nat (- k)) then k else k - 1)"

definition ilog2_ratio :: "int \<Rightarrow> int \<Rightarrow> int" where
  \<comment> \<open>\<open>\<lfloor>log\<^sub>2 (p / q)\<rfloor>\<close> for \<open>0 < p\<close> and \<open>0 < q\<close>: the difference of the bit lengths, or
      one less\<close>
  "ilog2_ratio p q = ilog2_adjust p q (int (bit_length (nat p)) - int (bit_length (nat q)))"

definition scaled_round :: "int \<Rightarrow> int \<Rightarrow> int \<Rightarrow> int" where
  \<comment> \<open>\<open>p / q / 2 ^ e\<close> rounded to an integer\<close>
  "scaled_round p q e =
     (if 0 \<le> e then round_half_even_div p (q * 2 ^ nat e)
      else round_half_even_div (p * 2 ^ nat (- e)) q)"

definition carry :: "int \<Rightarrow> int \<Rightarrow> int \<times> int" where
  \<comment> \<open>a mantissa rounded up to \<open>2 ^ 53\<close> moves to the next exponent\<close>
  "carry m e = (if m = 2 ^ 53 then (2 ^ 52, e + 1) else (m, e))"

definition nearest_pos :: "int \<Rightarrow> int \<Rightarrow> int \<times> int" where
  \<comment> \<open>mantissa and exponent of the binary64 number nearest to \<open>p / q\<close>, for \<open>0 < p\<close>, \<open>0 < q\<close>:
      53 significant bits, and no exponent below \<open>- 1074\<close>\<close>
  "nearest_pos p q =
     carry (scaled_round p q (max (ilog2_ratio p q - 52) (- 1074)))
           (max (ilog2_ratio p q - 52) (- 1074))"

fun pack :: "int \<Rightarrow> int \<times> int \<Rightarrow> pyfloat" where
  \<comment> \<open>the sign of \<open>p\<close> put back; beyond the largest finite number, infinity\<close>
  "pack p (m, e) =
     (if 971 < e then (if 0 < p then PosInf else NegInf)
      else Finite (if 0 < p then m else - m) e)"

definition float_of_ratio :: "int \<Rightarrow> int \<Rightarrow> pyfloat" where
  \<comment> \<open>\<open>p / q\<close> (with \<open>0 < q\<close>) rounded to binary64\<close>
  "float_of_ratio p q = (if p = 0 then Finite 0 (- 1074) else pack p (nearest_pos \<bar>p\<bar> q))"

definition float_of_dyadic :: "int \<Rightarrow> int \<Rightarrow> pyfloat" where
  \<comment> \<open>\<open>m * 2 ^ e\<close> rounded to binary64\<close>
  "float_of_dyadic m e =
     (if 0 \<le> e then float_of_ratio (m * 2 ^ nat e) 1 else float_of_ratio m (2 ^ nat (- e)))"

definition aligned :: "int \<Rightarrow> int \<Rightarrow> int \<Rightarrow> int" where
  \<comment> \<open>the mantissa of \<open>m * 2 ^ e\<close> at the smaller exponent \<open>e0\<close>\<close>
  "aligned m e e0 = m * 2 ^ nat (e - e0)"

fun fneg :: "pyfloat \<Rightarrow> pyfloat" where
  "fneg (Finite m e) = Finite (- m) e"
| "fneg PosInf = NegInf"
| "fneg NegInf = PosInf"
| "fneg NaN = NaN"

fun fadd :: "pyfloat \<Rightarrow> pyfloat \<Rightarrow> pyfloat" where
  "fadd (Finite m1 e1) (Finite m2 e2) =
     float_of_dyadic (aligned m1 e1 (min e1 e2) + aligned m2 e2 (min e1 e2)) (min e1 e2)"
| "fadd NaN y = NaN"
| "fadd x NaN = NaN"
| "fadd PosInf NegInf = NaN"
| "fadd NegInf PosInf = NaN"
| "fadd PosInf y = PosInf"
| "fadd NegInf y = NegInf"
| "fadd x PosInf = PosInf"
| "fadd x NegInf = NegInf"

definition fsub :: "pyfloat \<Rightarrow> pyfloat \<Rightarrow> pyfloat" where
  "fsub x y = fadd x (fneg y)"

fun fsign :: "pyfloat \<Rightarrow> int" where
  "fsign (Finite m e) = sgn m"
| "fsign PosInf = 1"
| "fsign NegInf = - 1"
| "fsign NaN = 0"

fun fmul :: "pyfloat \<Rightarrow> pyfloat \<Rightarrow> pyfloat" where
  "fmul (Finite m1 e1) (Finite m2 e2) = float_of_dyadic (m1 * m2) (e1 + e2)"
| "fmul x y =
     (if x = NaN \<or> y = NaN \<or> fsign x * fsign y = 0 then NaN
      else if 0 < fsign x * fsign y then PosInf else NegInf)"

definition float_of_quotient :: "int \<Rightarrow> int \<Rightarrow> pyfloat" where
  \<comment> \<open>\<open>p / q\<close> for \<open>q \<noteq> 0\<close> of either sign\<close>
  "float_of_quotient p q = (if 0 < q then float_of_ratio p q else float_of_ratio (- p) (- q))"

fun fdiv :: "pyfloat \<Rightarrow> pyfloat \<Rightarrow> exn + pyfloat" where
  \<comment> \<open>Python's \<open>x / y\<close> on floats: a zero divisor raises\<close>
  "fdiv x (Finite m2 e2) =
     (if m2 = 0 then Inl (ZeroDivisionError ''float division by zero'')
      else case x of
          Finite m1 e1 \<Rightarrow>
            Inr (float_of_quotient (aligned m1 e1 (min e1 e2)) (aligned m2 e2 (min e1 e2)))
        | NaN \<Rightarrow> Inr NaN
        | _ \<Rightarrow> Inr (if 0 < fsign x * sgn m2 then PosInf else NegInf))"
| "fdiv x NaN = Inr NaN"
| "fdiv (Finite m1 e1) y = Inr (Finite 0 (- 1074))"
| "fdiv x y = Inr NaN"

fun float_lt :: "pyfloat \<Rightarrow> pyfloat \<Rightarrow> bool" where
  "float_lt (Finite m1 e1) (Finite m2 e2) =
     (aligned m1 e1 (min e1 e2) < aligned m2 e2 (min e1 e2))"
| "float_lt NaN y = False"
| "float_lt x NaN = False"
| "float_lt PosInf y = False"
| "float_lt x NegInf = False"
| "float_lt x y = True"

fun float_le :: "pyfloat \<Rightarrow> pyfloat \<Rightarrow> bool" where
  "float_le (Finite m1 e1) (Finite m2 e2) =
     (aligned m1 e1 (min e1 e2) \<le> aligned m2 e2 (min e1 e2))"
| "float_le NaN y = False"
| "float_le x NaN = False"
| "float_le NegInf y = True"
| "float_le x PosInf = True"
| "float_le x y = False"

fun float_eq :: "pyfloat \<Rightarrow> pyfloat \<Rightarrow> bool" where
  "float_eq (Finite m1 e1) (Finite m2 e2) =
     (aligned m1 e1 (min e1 e2) = aligned m2 e2 (min e1 e2))"
| "float_eq NaN y = False"
| "float_eq x NaN = False"
| "float_eq x y = (x = y)"

fun py_round2 :: "pyfloat \<Rightarrow> pyfloat" where
  \<comment> \<open>\<open>round(x, 2)\<close> on a float: the decimal with two places nearest to the exact value of
      \<open>x\<close> (ties to even), converted back to the nearest float\<close>
  "py_round2 (Finite m e) =
     float_of_ratio
       (if 0 \<le> e then 100 * m * 2 ^ nat e else round_half_even_div (100 * m) (2 ^ nat (- e))) 100"
| "py_round2 x = x"

fun is_integer :: "pyfloat \<Rightarrow> bool" where
  "is_integer (Finite m e) = (0 \<le> e \<or> m mod 2 ^ nat (- e) = 0)"
| "is_integer x = False"

fun float_to_int :: "pyfloat \<Rightarrow> exn + int" where
  "float_to_int (Finite m e) = Inr (if 0 \<le> e then m * 2 ^ nat e else sgn m * (\<bar>m\<bar> div 2 ^ nat (- e)))"
| "float_to_int NaN = Inl (ValueError ''cannot convert float NaN to integer'')"
| "float_to_int x = Inl (OverflowError ''cannot convert float infinity to integer'')"

subsection \<open>Numbers\<close>

text \<open>
  Python's \<open>int\<close> is unbounded; \<open>bool\<close> is a subclass of \<open>int\<close> and behaves as \<open>0\<close> or
  \<open>1\<close> in every operation below, so it is not a constructor of its own. Mixed arithmetic
  converts the \<open>int\<close> operand to \<open>float\<close>, which raises \<open>OverflowError\<close> when the integer is
  beyond the range of the format; mixed comparison is exact and never raises.
\<close>

datatype pynum = PInt int | PFloat pyfloat

definition int_to_float :: "int \<Rightarrow> exn + pyfloat" where
  "int_to_float i =
     (case float_of_ratio i 1 of
        Finite m e \<Rightarrow> Inr (Finite m e)
      | _ \<Rightarrow> Inl (OverflowError ''int too large to convert to float''))"

fun num_add :: "pynum \<Rightarrow> pynum \<Rightarrow> exn + pynum" where
  "num_add (PInt a) (PInt b) = Inr (PInt (a + b))"
| "num_add (PInt a) (PFloat y) =
     (case int_to_float a of Inl err \<Rightarrow> Inl err | Inr x \<Rightarrow> Inr (PFloat (fadd x y)))"
| "num_add (PFloat x) (PInt b) =
     (case int_to_float b of Inl err \<Rightarrow> Inl err | Inr y \<Rightarrow> Inr (PFloat (fadd x y)))"
| "num_add (PFloat x) (PFloat y) = Inr (PFloat (fadd x y))"

fun num_sub :: "pynum \<Rightarrow> pynum \<Rightarrow> exn + pynum" where
  "num_sub (PInt a) (PInt b) = Inr (PInt (a - b))"
| "num_sub (PInt a) (PFloat y) =
     (case int_to_float a of Inl err \<Rightarrow> Inl err | Inr x \<Rightarrow> Inr (PFloat (fsub x y)))"
| "num_sub (PFloat x) (PInt b) =
     (case int_to_float b of Inl err \<Rightarrow> Inl err | Inr y \<Rightarrow> Inr (PFloat (fsub x y)))"
| "num_sub (PFloat x) (PFloat y) = Inr (PFloat (fsub x y))"

fun mul_float :: "pynum \<Rightarrow> pyfloat \<Rightarrow> exn + pyfloat" where
  \<comment> \<open>\<open>x * y\<close> with a float right operand: the product is a float\<close>
  "mul_float (PInt a) y =
     (case int_to_float a of Inl err \<Rightarrow> Inl err | Inr x \<Rightarrow> Inr (fmul x y))"
| "mul_float (PFloat x) y = Inr (fmul x y)"

fun exact :: "pynum \<Rightarrow> pyfloat" where
  \<comment> \<open>the value of a number as a dyadic, for exact comparison (no rounding)\<close>
  "exact (PInt a) = Finite a 0"
| "exact (PFloat x) = x"

definition num_lt :: "pynum \<Rightarrow> pynum \<Rightarrow> bool" where
  "num_lt x y = float_lt (exact x) (exact y)"

definition num_le :: "pynum \<Rightarrow> pynum \<Rightarrow> bool" where
  "num_le x y = float_le (exact x) (exact y)"

definition num_gt :: "pynum \<Rightarrow> pynum \<Rightarrow> bool" where
  "num_gt x y = num_lt y x"

definition num_ge :: "pynum \<Rightarrow> pynum \<Rightarrow> bool" where
  "num_ge x y = num_le y x"

definition num_eq :: "pynum \<Rightarrow> pynum \<Rightarrow> bool" where
  \<comment> \<open>Python's \<open>==\<close> on numbers: \<open>5 == 5.0\<close>, and \<open>nan\<close> equals nothing\<close>
  "num_eq x y = float_eq (exact x) (exact y)"

subsection \<open>Values and strings\<close>

text \<open>
  A string is the list of its code points, all below 256. A dictionary has string keys and
  is the list of its items in insertion order.
\<close>

datatype pyval =
    PyNum pynum
  | PyStr string
  | PyNone
  | PyList "pyval list"
  | PyDict "(string \<times> pyval) list"

fun type_name :: "pyval \<Rightarrow> string" where
  "type_name (PyNum (PInt i)) = ''int''"
| "type_name (PyNum (PFloat x)) = ''float''"
| "type_name (PyStr s) = ''str''"
| "type_name PyNone = ''NoneType''"
| "type_name (PyList xs) = ''list''"
| "type_name (PyDict d) = ''dict''"

definition is_space :: "char \<Rightarrow> bool" where
  \<comment> \<open>\<open>str.isspace\<close> on the code points below 256\<close>
  "is_space c = ((of_char c :: nat) \<in> {9, 10, 11, 12, 13, 28, 29, 30, 31, 32, 133, 160})"

definition strip_is_empty :: "string \<Rightarrow> bool" where
  \<comment> \<open>\<open>not s.strip()\<close>\<close>
  "strip_is_empty s = list_all is_space s"

definition digit_char :: "nat \<Rightarrow> char" where
  "digit_char d = ''0123456789'' ! d"

fun str_nat :: "nat \<Rightarrow> string" where
  "str_nat n = (if n < 10 then [digit_char n] else str_nat (n div 10) @ [digit_char (n mod 10)])"

declare str_nat.simps [simp del]

definition str_int :: "int \<Rightarrow> string" where
  \<comment> \<open>\<open>str(i)\<close>, as an f-string formats an \<open>int\<close>\<close>
  "str_int i = (if i < 0 then CHR ''-'' # str_nat (nat (- i)) else str_nat (nat i))"

section \<open>Transaction record\<close>

subsection \<open>Timestamps\<close>

text \<open>
  A timestamp is a naive \<open>datetime\<close>, as \<open>datetime.now()\<close> returns it. \<open>isoformat\<close>
  writes \<open>YYYY-MM-DDTHH:MM:SS\<close>, followed by \<open>.ffffff\<close> when the microsecond is not zero.

  \<open>datetime.fromisoformat\<close> belongs to the standard library, and the strings it accepts
  beyond these two shapes (other separators, dates without a time, shorter fractions, time
  zones) depend on the version of the interpreter. What it does with a string is therefore a
  parameter \<open>parse\<close> of every function that calls it; only its \<open>TypeError\<close> for an
  argument that is not a string is fixed. \<open>parse_written\<close> is one such parser, used where
  an example needs one: it reads the strings \<open>isoformat\<close> writes, on which it agrees with
  the library, and answers every other string with \<open>ValueError\<close>.
\<close>

record datetime =
  year :: nat
  month :: nat
  day :: nat
  hour :: nat
  minute :: nat
  second :: nat
  microsecond :: nat

definition is_leap :: "nat \<Rightarrow> bool" where
  "is_leap y = (y mod 4 = 0 \<and> (if y mod 100 = 0 then y mod 400 = 0 else True))"

definition days_in_month :: "nat \<Rightarrow> nat \<Rightarrow> nat" where
  "days_in_month y m =
     (if m = 2 then (if is_leap y then 29 else 28)
      else if m = 4 \<or> m = 6 \<or> m = 9 \<or> m = 11 then 30 else 31)"

definition valid_datetime :: "datetime \<Rightarrow> bool" where
  "valid_datetime t =
     (1 \<le> year t \<and> year t \<le> 9999 \<and> 1 \<le> month t \<and> month t \<le> 12 \<and>
      1 \<le> day t \<and> day t \<le> days_in_month (year t) (month t) \<and>
      hour t < 24 \<and> minute t < 60 \<and> second t < 60 \<and> microsecond t < 1000000)"

definition pad2 :: "nat \<Rightarrow> string" where
  \<comment> \<open>two decimal digits, for a number below 100\<close>
  "pad2 n = [digit_char (n div 10), digit_char (n mod 10)]"

definition pad4 :: "nat \<Rightarrow> string" where
  "pad4 n = pad2 (n div 100) @ pad2 (n mod 100)"

definition pad6 :: "nat \<Rightarrow> string" where
  "pad6 n = pad2 (n div 10000) @ pad4 (n mod 10000)"

definition isoformat :: "datetime \<Rightarrow> string" where
  "isoformat t =
     pad4 (year t) @ ''-'' @ pad2 (month t) @ ''-'' @ pad2 (day t) @ ''T'' @
     pad2 (hour t) @ '':'' @ pad2 (minute t) @ '':'' @ pad2 (second t) @
     (if microsecond t = 0 then [] else ''.'' @ pad6 (microsecond t))"

definition digit_val :: "char \<Rightarrow> nat option" where
  "digit_val c =
     (let n = (of_char c :: nat) in if 48 \<le> n \<and> n \<le> 57 then Some (n - 48) else None)"

fun digits_val :: "nat \<Rightarrow> string \<Rightarrow> nat option" where
  "digits_val acc [] = Some acc"
| "digits_val acc (c # cs) =
     (case digit_val c of None \<Rightarrow> None | Some d \<Rightarrow> digits_val (acc * 10 + d) cs)"

definition parse_field :: "nat \<Rightarrow> string \<Rightarrow> (nat \<times> string) option" where
  \<comment> \<open>exactly \<open>k\<close> decimal digits, and the rest of the string\<close>
  "parse_field k s =
     (if length s < k then None
      else map_option (\<lambda>v. (v, drop k s)) (digits_val 0 (take k s)))"

fun expect :: "char \<Rightarrow> string \<Rightarrow> string option" where
  "expect c [] = None"
| "expect c (x # xs) = (if x = c then Some xs else None)"

definition parse_datetime :: "string \<Rightarrow> datetime option" where
  "parse_datetime s =
     do {
       (y, r1) \<leftarrow> parse_field 4 s;
       r2 \<leftarrow> expect CHR ''-'' r1;
       (mo, r3) \<leftarrow> parse_field 2 r2;
       r4 \<leftarrow> expect CHR ''-'' r3;
       (d, r5) \<leftarrow> parse_field 2 r4;
       r6 \<leftarrow> expect CHR ''T'' r5;
       (h, r7) \<leftarrow> parse_field 2 r6;
       r8 \<leftarrow> expect CHR '':'' r7;
       (mi, r9) \<leftarrow> parse_field 2 r8;
       r10 \<leftarrow> expect CHR '':'' r9;
       (sec, r11) \<leftarrow> parse_field 2 r10;
       if r11 = [] then
         Some \<lparr>year = y, month = mo, day = d, hour = h, minute = mi, second = sec,
               microsecond = 0\<rparr>
       else do {
         r12 \<leftarrow> expect CHR ''.'' r11;
         (us, r13) \<leftarrow> parse_field 6 r12;
         if r13 = [] then
           Some \<lparr>year = y, month = mo, day = d, hour = h, minute = mi, second = sec,
                 microsecond = us\<rparr>
         else None
       }
     }"

definition parse_written :: "string \<Rightarrow> exn + datetime" where
  "parse_written s =
     (case parse_datetime s of
        None \<Rightarrow> Inl (ValueError (''Invalid isoformat string: '' @ quoted s))
      | Some t \<Rightarrow>
          if valid_datetime t then Inr t
          else Inl (ValueError (''Invalid isoformat string: '' @ quoted s)))"

definition fromisoformat :: "(string \<Rightarrow> exn + datetime) \<Rightarrow> pyval \<Rightarrow> exn + datetime" where
  "fromisoformat parse v =
     (case v of
        PyStr s \<Rightarrow> parse s
      | _ \<Rightarrow> Inl (TypeError ''fromisoformat: argument must be str''))"

subsection \<open>Construction\<close>

text \<open>
  \<open>Transaction.__init__\<close> checks its arguments in the order of the source. The timestamp
  argument is a \<open>datetime\<close> at every call of the program (\<open>datetime.now()\<close> or the result
  of \<open>datetime.fromisoformat\<close>), so its \<open>isinstance\<close> check is discharged by the type.
\<close>

record transaction =
  transaction_id :: int
  amount :: pynum
  transaction_type :: string
  time_stamp :: datetime
  currency :: string

definition Transaction_init ::
  "pyval \<Rightarrow> pyval \<Rightarrow> pyval \<Rightarrow> datetime \<Rightarrow> pyval \<Rightarrow> exn + transaction" where
  "Transaction_init tid amt kind ts cur =
     (case tid of
        PyNum (PInt i) \<Rightarrow>
          (case amt of
             PyNum n \<Rightarrow>
               (case kind of
                  PyStr k \<Rightarrow>
                    if strip_is_empty k then Inl (ValueError ''Transaction type must not be empty'')
                    else (case cur of
                            PyStr c \<Rightarrow>
                              Inr \<lparr>transaction_id = i, amount = n, transaction_type = k,
                                   time_stamp = ts, currency = c\<rparr>
                          | _ \<Rightarrow> Inl (TypeError ''Currency must be an string''))
                | _ \<Rightarrow> Inl (TypeError ''Transaction type must be an string''))
           | _ \<Rightarrow> Inl (TypeError ''Amount must be a num''))
      | _ \<Rightarrow> Inl (TypeError ''Transaction id must be an integer''))"

section \<open>Bank account\<close>

text \<open>
  The fields of an account have the types the class declares: an integer id, a numeric
  balance, a currency string. The amount and the currency passed to an operation are
  arbitrary values, as the operations check them at run time. What an operation returns is
  a \<open>reply\<close>: a message, or for a completed transfer the four values its message is
  formatted from. An operation reads the clock once for each record it appends; these
  readings are parameters.
\<close>

record account =
  account_id :: int
  balance :: pynum
  currency :: string
  transactions :: "transaction list"

definition Bankaccount_init :: "int \<Rightarrow> pynum \<Rightarrow> string \<Rightarrow> account" where
  "Bankaccount_init aid bal cur =
     \<lparr>account_id = aid, balance = bal, currency = cur, transactions = []\<rparr>"

datatype reply = Text string | TransferCompleted pynum string pynum string

definition deposit_body ::
  "account \<Rightarrow> pyval \<Rightarrow> pyval \<Rightarrow> datetime \<Rightarrow> (exn + reply) \<times> account" where
  "deposit_body self amt cur now =
     (case amt of
        PyNum n \<Rightarrow>
          if num_lt n (PInt 0) then (Inl (ValueError ''Amount cannot be negative''), self)
          else if cur \<noteq> PyStr (currency self) then (Inl (ValueError ''Currency mismatch''), self)
          else (case num_add (balance self) n of
                  Inl err \<Rightarrow> (Inl err, self)
                | Inr b \<Rightarrow>
                    let self1 = self\<lparr>balance := b\<rparr>
                    in (case Transaction_init
                               (PyNum (PInt (int (length (transactions self1)) + 1)))
                               amt (PyStr ''deposit'') now cur of
                          Inl err \<Rightarrow> (Inl err, self1)
                        | Inr t \<Rightarrow>
                            (Inr (Text ''Deposit successful''),
                             self1\<lparr>transactions := transactions self1 @ [t]\<rparr>)))
      | _ \<Rightarrow> (Inl (ValueError ''Amount must be of type int or float''), self))"

definition deposit ::
  "account \<Rightarrow> pyval \<Rightarrow> pyval \<Rightarrow> datetime \<Rightarrow> (exn + reply) \<times> account" where
  \<comment> \<open>\<open>except Exception as e\<close>: every exception becomes a returned message\<close>
  "deposit self amt cur now =
     (case deposit_body self amt cur now of
        (Inl err, self') \<Rightarrow> (Inr (Text (''Deposit error: '' @ exn_str err)), self')
      | (Inr r, self') \<Rightarrow> (Inr r, self'))"

definition withdraw_body ::
  "account \<Rightarrow> pyval \<Rightarrow> pyval \<Rightarrow> datetime \<Rightarrow> (exn + reply) \<times> account" where
  "withdraw_body self amt cur now =
     (case amt of
        PyNum n \<Rightarrow>
          if num_lt n (PInt 0) then (Inl (ValueError ''Amount cannot be negative''), self)
          else if cur \<noteq> PyStr (currency self)
            then (Inl (ValueError ''Currency cannot be changed''), self)
          else if num_gt n (balance self)
            then (Inl (ValueError ''Amount cannot be greater than balance''), self)
          else (case num_sub (balance self) n of
                  Inl err \<Rightarrow> (Inl err, self)
                | Inr b \<Rightarrow>
                    let self1 = self\<lparr>balance := b\<rparr>
                    in (case Transaction_init
                               (PyNum (PInt (int (length (transactions self1)) + 1)))
                               amt (PyStr ''withdraw'') now cur of
                          Inl err \<Rightarrow> (Inl err, self1)
                        | Inr t \<Rightarrow>
                            (Inr (Text ''Withdrawal was successful''),
                             self1\<lparr>transactions := transactions self1 @ [t]\<rparr>)))
      | _ \<Rightarrow> (Inl (ValueError ''Value must be a number''), self))"

definition withdraw ::
  "account \<Rightarrow> pyval \<Rightarrow> pyval \<Rightarrow> datetime \<Rightarrow> (exn + reply) \<times> account" where
  "withdraw self amt cur now =
     (case withdraw_body self amt cur now of
        (Inl err, self') \<Rightarrow> (Inr (Text (''Withdrawal error:'' @ exn_str err)), self')
      | (Inr r, self') \<Rightarrow> (Inr r, self'))"

subsection \<open>Exchange rates\<close>

definition lit :: "int \<Rightarrow> int \<Rightarrow> pyfloat" where
  \<comment> \<open>the float a decimal literal \<open>p / q\<close> denotes: the nearest one\<close>
  "lit p q = float_of_ratio p q"

definition bind_exn :: "exn + 'a \<Rightarrow> ('a \<Rightarrow> exn + 'b) \<Rightarrow> exn + 'b" where
  "bind_exn x f = (case x of Inl err \<Rightarrow> Inl err | Inr v \<Rightarrow> f v)"

definition exchange_rates :: "exn + ((string \<times> string) \<times> pyfloat) list" where
  \<comment> \<open>the dictionary literal, its values computed in the order written\<close>
  "exchange_rates =
     bind_exn (fdiv (lit 1 1) (lit 395 10)) (\<lambda>uan_usd.
     bind_exn (fdiv (lit 1 1) (lit 92 100)) (\<lambda>eur_usd.
     bind_exn (fdiv (lit 1 1) (lit 395 10)) (\<lambda>a.
     bind_exn (fdiv (lit 1 1) (lit 92 100)) (\<lambda>b.
       Inr [((''USD'', ''UAN''), lit 395 10),
            ((''UAN'', ''USD''), uan_usd),
            ((''USD'', ''EUR''), lit 92 100),
            ((''EUR'', ''USD''), eur_usd),
            ((''UAN'', ''EUR''), fmul a (lit 92 100)),
            ((''EUR'', ''UAN''), fmul b (lit 395 10))]))))"

definition get_exchange_rate :: "string \<Rightarrow> string \<Rightarrow> exn + pyfloat option" where
  "get_exchange_rate from_currency to_currency =
     bind_exn exchange_rates (\<lambda>tbl.
       if from_currency = to_currency then Inr (Some (lit 1 1))
       else Inr (map_of tbl (from_currency, to_currency)))"

subsection \<open>Transfer\<close>

text \<open>
  A transfer mutates two objects, which may be one and the same, so the accounts live in a
  store and the operation takes the addresses of the source and of the target. The state
  returned with an exception is the state at the moment it was raised.
\<close>

type_synonym store = "nat \<Rightarrow> account"

definition transfer_body ::
  "store \<Rightarrow> nat \<Rightarrow> nat \<Rightarrow> pyval \<Rightarrow> pyval \<Rightarrow> datetime \<Rightarrow> datetime \<Rightarrow> (exn + reply) \<times> store" where
  "transfer_body h self target amt cur now1 now2 =
     (case amt of
        PyNum n \<Rightarrow>
          if num_le n (PInt 0)
            then (Inl (ValueError ''The transfer amount must be greater than 0..''), h)
          else if cur \<noteq> PyStr (currency (h self))
            then (Inl (ValueError ''The amount must be in your account currency..''), h)
          else if num_gt n (balance (h self))
            then (Inl (ValueError ''Insufficient funds for transfer.''), h)
          else (case get_exchange_rate (currency (h self)) (currency (h target)) of
              Inl err \<Rightarrow> (Inl err, h)
            | Inr None \<Rightarrow>
                (Inl (ValueError ''Unable to transfer: no exchange rate available.''), h)
            | Inr (Some exchange_rate) \<Rightarrow>
               (case mul_float n exchange_rate of
                  Inl err \<Rightarrow> (Inl err, h)
                | Inr product \<Rightarrow>
                   let converted_amount = py_round2 product
                   in (case num_sub (balance (h self)) n of
                     Inl err \<Rightarrow> (Inl err, h)
                   | Inr b1 \<Rightarrow>
                      let h1 = h(self := (h self)\<lparr>balance := b1\<rparr>)
                      in (case Transaction_init
                                 (PyNum (PInt (int (length (transactions (h1 self))) + 1)))
                                 amt
                                 (PyStr (''transfer_to_'' @ str_int (account_id (h1 target))))
                                 now1
                                 (PyStr (currency (h1 self))) of
                        Inl err \<Rightarrow> (Inl err, h1)
                      | Inr t1 \<Rightarrow>
                         let h2 = h1(self := (h1 self)
                                    \<lparr>transactions := transactions (h1 self) @ [t1]\<rparr>)
                         in (case num_add (balance (h2 target)) (PFloat converted_amount) of
                           Inl err \<Rightarrow> (Inl err, h2)
                         | Inr b2 \<Rightarrow>
                            let h3 = h2(target := (h2 target)\<lparr>balance := b2\<rparr>)
                            in (case Transaction_init
                                       (PyNum (PInt (int (length (transactions (h3 target))) + 1)))
                                       (PyNum (PFloat converted_amount))
                                       (PyStr (''transfer_from_'' @ str_int (account_id (h3 self))))
                                       now2
                                       (PyStr (currency (h3 target))) of
                              Inl err \<Rightarrow> (Inl err, h3)
                            | Inr t2 \<Rightarrow>
                               let h4 = h3(target := (h3 target)
                                          \<lparr>transactions := transactions (h3 target) @ [t2]\<rparr>)
                               in (case (if is_integer converted_amount
                                         then map_sum id PInt (float_to_int converted_amount)
                                         else Inr (PFloat converted_amount)) of
                                 Inl err \<Rightarrow> (Inl err, h4)
                               | Inr formated_amount \<Rightarrow>
                                  (Inr (TransferCompleted n (currency (h4 self))
                                          formated_amount (currency (h4 target))), h4))))))))
      | _ \<Rightarrow>
          (Inl (TypeError (quoted ''<='' @ '' not supported between instances of ''
                  @ quoted (type_name amt) @ '' and '' @ quoted ''int'')), h))"

definition transfer ::
  "store \<Rightarrow> nat \<Rightarrow> nat \<Rightarrow> pyval \<Rightarrow> pyval \<Rightarrow> datetime \<Rightarrow> datetime \<Rightarrow> (exn + reply) \<times> store" where
  \<comment> \<open>\<open>except ValueError as e\<close>: only a \<open>ValueError\<close> becomes a returned message\<close>
  "transfer h self target amt cur now1 now2 =
     (case transfer_body h self target amt cur now1 now2 of
        (Inl (ValueError m), h') \<Rightarrow> (Inr (Text (''Transfer error: '' @ m)), h')
      | r \<Rightarrow> r)"

section \<open>Serialization\<close>

text \<open>
  \<open>to_dict\<close> writes a dictionary and \<open>from_dict\<close> reads one. The dictionary of an account
  is a record of optional items, \<open>None\<close> for a missing key; the three items the constructor
  stores without a check have the types of the fields they become. The item
  \<open>transactions\<close> and everything below it is an arbitrary value, as
  \<open>Transaction.from_dict\<close> and the constructor check it at run time. \<open>from_dict\<close> returns
  what the call returns or raises, and the lines it prints. Its first argument is the
  parser that stands for \<open>datetime.fromisoformat\<close> on strings.
\<close>

definition get_item :: "(string \<times> pyval) list \<Rightarrow> string \<Rightarrow> exn + pyval" where
  "get_item d k = (case map_of d k of None \<Rightarrow> Inl (KeyError k) | Some v \<Rightarrow> Inr v)"

fun subscript :: "pyval \<Rightarrow> string \<Rightarrow> exn + pyval" where
  \<comment> \<open>\<open>v[k]\<close> with a string key\<close>
  "subscript (PyDict d) k = get_item d k"
| "subscript (PyStr s) k =
     Inl (TypeError (''string indices must be integers, not '' @ quoted ''str''))"
| "subscript (PyList xs) k = Inl (TypeError ''list indices must be integers or slices, not str'')"
| "subscript v k = Inl (TypeError (quoted (type_name v) @ '' object is not subscriptable''))"

fun iterate :: "pyval \<Rightarrow> exn + pyval list" where
  \<comment> \<open>the items a \<open>for\<close> loop visits\<close>
  "iterate (PyList xs) = Inr xs"
| "iterate (PyStr s) = Inr (map (\<lambda>c. PyStr [c]) s)"
| "iterate (PyDict d) = Inr (map (\<lambda>kv. PyStr (fst kv)) d)"
| "iterate v = Inl (TypeError (quoted (type_name v) @ '' object is not iterable''))"

definition Transaction_to_dict :: "transaction \<Rightarrow> pyval" where
  "Transaction_to_dict t =
     PyDict [(''transaction_id'', PyNum (PInt (transaction_id t))),
             (''amount'', PyNum (amount t)),
             (''transaction_type'', PyStr (transaction_type t)),
             (''currency'', PyStr (transaction.currency t)),
             (''time_stamp'', PyStr (isoformat (time_stamp t)))]"

definition Transaction_from_dict ::
  "(string \<Rightarrow> exn + datetime) \<Rightarrow> pyval \<Rightarrow> exn + transaction" where
  \<comment> \<open>the arguments of the constructor call are evaluated in the order written\<close>
  "Transaction_from_dict parse data =
     bind_exn (subscript data ''transaction_id'') (\<lambda>tid.
     bind_exn (subscript data ''amount'') (\<lambda>amt.
     bind_exn (subscript data ''transaction_type'') (\<lambda>kind.
     bind_exn (subscript data ''currency'') (\<lambda>cur.
     bind_exn (subscript data ''time_stamp'') (\<lambda>stamp.
     bind_exn (fromisoformat parse stamp) (\<lambda>ts.
       Transaction_init tid amt kind ts cur))))))"

record account_dict =
  account_id_item :: "int option"
  balance_item :: "pynum option"
  currency_item :: "string option"
  transactions_item :: "pyval option"

definition to_dict :: "account \<Rightarrow> account_dict" where
  "to_dict self =
     \<lparr>account_id_item = Some (account_id self),
      balance_item = Some (balance self),
      currency_item = Some (currency self),
      transactions_item = Some (PyList (map Transaction_to_dict (transactions self)))\<rparr>"

fun load_transactions ::
  "(string \<Rightarrow> exn + datetime) \<Rightarrow> pyval list \<Rightarrow> account \<Rightarrow> exn + account" where
  \<comment> \<open>the loop of \<open>from_dict\<close>: each item is parsed and appended, in order\<close>
  "load_transactions parse [] acct = Inr acct"
| "load_transactions parse (tr_data # rest) acct =
     bind_exn (Transaction_from_dict parse tr_data) (\<lambda>t.
       load_transactions parse rest (acct\<lparr>transactions := transactions acct @ [t]\<rparr>))"

definition from_dict_body ::
  "(string \<Rightarrow> exn + datetime) \<Rightarrow> account_dict \<Rightarrow> exn + account" where
  "from_dict_body parse data =
     (case account_id_item data of
        None \<Rightarrow> Inl (KeyError ''account_id'')
      | Some aid \<Rightarrow>
         (case balance_item data of
            None \<Rightarrow> Inl (KeyError ''balance'')
          | Some bal \<Rightarrow>
             (case currency_item data of
                None \<Rightarrow> Inl (KeyError ''currency'')
              | Some cur \<Rightarrow>
                 bind_exn (iterate (case transactions_item data of
                                      None \<Rightarrow> PyList [] | Some v \<Rightarrow> v))
                   (\<lambda>items. load_transactions parse items (Bankaccount_init aid bal cur)))))"

definition from_dict ::
  "(string \<Rightarrow> exn + datetime) \<Rightarrow> account_dict \<Rightarrow> (exn + account option) \<times> string list" where
  \<comment> \<open>\<open>except (ValueError, KeyError)\<close>: these two are reported and answered with \<open>None\<close>\<close>
  "from_dict parse data =
     (case from_dict_body parse data of
        Inr acct \<Rightarrow> (Inr (Some acct), [])
      | Inl (ValueError m) \<Rightarrow> (Inr None, [''Error loading account from dict''])
      | Inl (KeyError k) \<Rightarrow> (Inr None, [''Error loading account from dict''])
      | Inl err \<Rightarrow> (Inl err, []))"

section \<open>What the specification speaks of\<close>

text \<open>
  The definitions of this section are not parts of the program. They put into terms of the
  model the notions the specification uses to describe it: the two legs of a transfer, the
  replay of a transaction log, and a sequence of operations on a store of accounts.
\<close>

definition appended :: "account \<Rightarrow> pynum \<Rightarrow> pynum \<Rightarrow> string \<Rightarrow> datetime \<Rightarrow> account" where
  \<comment> \<open>the account with the new balance \<open>b\<close> and one more record, of the given amount and kind,
      numbered by the length of the log plus one\<close>
  "appended a b amt kind now =
     a\<lparr>balance := b,
       transactions := transactions a @
         [\<lparr>transaction_id = int (length (transactions a)) + 1, amount = amt,
           transaction_type = kind, time_stamp = now, currency = currency a\<rparr>]\<rparr>"

definition formated :: "pyfloat \<Rightarrow> pynum" where
  \<comment> \<open>the converted amount as the message of a completed transfer shows it: an \<open>int\<close> when
      it has no fractional part\<close>
  "formated c =
     (if is_integer c
      then (case float_to_int c of Inr i \<Rightarrow> PInt i | Inl err \<Rightarrow> PFloat c)
      else PFloat c)"

definition spec_converted :: "store \<Rightarrow> nat \<Rightarrow> nat \<Rightarrow> pynum \<Rightarrow> pyfloat option" where
  \<comment> \<open>\<open>round(amount * rate, 2)\<close>, when the rate exists and the product can be computed\<close>
  "spec_converted h s t n =
     (case get_exchange_rate (currency (h s)) (currency (h t)) of
        Inr (Some rate) \<Rightarrow>
          (case mul_float n rate of Inr p \<Rightarrow> Some (py_round2 p) | Inl err \<Rightarrow> None)
      | _ \<Rightarrow> None)"

definition spec_debit :: "store \<Rightarrow> nat \<Rightarrow> nat \<Rightarrow> pynum \<Rightarrow> datetime \<Rightarrow> exn + store" where
  \<comment> \<open>the debit leg: the source loses \<open>n\<close> and logs \<open>transfer_to_<target.id>\<close>\<close>
  "spec_debit h s t n now =
     (case num_sub (balance (h s)) n of
        Inl err \<Rightarrow> Inl err
      | Inr b \<Rightarrow>
          Inr (h(s := appended (h s) b n (''transfer_to_'' @ str_int (account_id (h t))) now)))"

definition spec_credit :: "store \<Rightarrow> nat \<Rightarrow> nat \<Rightarrow> pyfloat \<Rightarrow> datetime \<Rightarrow> exn + store" where
  \<comment> \<open>the credit leg: the target gains \<open>c\<close> and logs \<open>transfer_from_<source.id>\<close>\<close>
  "spec_credit h s t c now =
     (case num_add (balance (h t)) (PFloat c) of
        Inl err \<Rightarrow> Inl err
      | Inr b \<Rightarrow>
          Inr (h(t := appended (h t) b (PFloat c)
                         (''transfer_from_'' @ str_int (account_id (h s))) now)))"

definition nearest_hundredth :: "int \<Rightarrow> int \<Rightarrow> int \<Rightarrow> bool" where
  \<comment> \<open>\<open>k / 100\<close> is a decimal with two places nearest to \<open>m * 2 ^ e\<close>: \<open>k\<close> is within one
      half of \<open>100 * m * 2 ^ e\<close>, and even when exactly one half away\<close>
  "nearest_hundredth m e k =
     (\<bar>2 * (100 * m * 2 ^ nat e) - 2 * k * 2 ^ nat (- e)\<bar> \<le> 2 ^ nat (- e) \<and>
      (\<bar>2 * (100 * m * 2 ^ nat e) - 2 * k * 2 ^ nat (- e)\<bar> = 2 ^ nat (- e) \<longrightarrow> even k))"







datatype command =
    Deposit nat pyval pyval datetime
  | Withdraw nat pyval pyval datetime
  | Transfer nat nat pyval pyval datetime datetime

fun exec :: "store \<Rightarrow> command \<Rightarrow> store" where
  \<comment> \<open>one call on the accounts of a store; what the call returns or raises is dropped\<close>
  "exec h (Deposit a amt cur now) = h(a := snd (deposit (h a) amt cur now))"
| "exec h (Withdraw a amt cur now) = h(a := snd (withdraw (h a) amt cur now))"
| "exec h (Transfer s t amt cur now1 now2) = snd (transfer h s t amt cur now1 now2)"

fun clocks :: "command \<Rightarrow> datetime list" where
  \<comment> \<open>the readings of the clock a call is given\<close>
  "clocks (Deposit a amt cur now) = [now]"
| "clocks (Withdraw a amt cur now) = [now]"
| "clocks (Transfer s t amt cur now1 now2) = [now1, now2]"

definition well_formed :: "account \<Rightarrow> bool" where
  \<comment> \<open>what the constructor of \<open>Transaction\<close> and the class \<open>datetime\<close> guarantee of every
      record of a log\<close>
  "well_formed a =
     list_all (\<lambda>t. valid_datetime (time_stamp t) \<and> \<not> strip_is_empty (transaction_type t))
       (transactions a)"

subsection \<open>Sample values\<close>

definition huge :: int where
  \<comment> \<open>an integer beyond the range of \<open>float\<close>\<close>
  "huge = 2 ^ 1024"

definition clock1 :: datetime where
  "clock1 = \<lparr>year = 2024, month = 5, day = 17, hour = 10, minute = 30, second = 15,
             microsecond = 0\<rparr>"

definition clock2 :: datetime where
  "clock2 = \<lparr>year = 2024, month = 5, day = 17, hour = 10, minute = 30, second = 15,
             microsecond = 250\<rparr>"

definition two_accounts :: "account \<Rightarrow> account \<Rightarrow> store" where
  \<comment> \<open>a store with the account \<open>a\<close> at address 0 and the account \<open>b\<close> elsewhere\<close>
  "two_accounts a b = (\<lambda>i. if i = 0 then a else b)"

section \<open>Evaluating the arithmetic\<close>

lemma bit_length_numeral: "bit_length (numeral k) = num_bits k"
proof (induction k)
  case One
  show ?case by (simp add: bit_length.simps)
next
  case (Bit0 k)
  have "bit_length (numeral (num.Bit0 k)) = Suc (bit_length (numeral (num.Bit0 k) div 2))"
    by (subst bit_length.simps) simp
  also have "(numeral (num.Bit0 k) :: nat) div 2 = numeral k"
    by simp
  finally show ?case using Bit0 by simp
next
  case (Bit1 k)
  have "bit_length (numeral (num.Bit1 k)) = Suc (bit_length (numeral (num.Bit1 k) div 2))"
    by (subst bit_length.simps) simp
  also have "(numeral (num.Bit1 k) :: nat) div 2 = numeral k"
    by simp
  finally show ?case using Bit1 by simp
qed

lemma bit_length_1: "bit_length 1 = 1" "bit_length (Suc 0) = 1"
  by (simp_all add: bit_length.simps)

lemmas float_eval = float_of_ratio_def nearest_pos_def ilog2_ratio_def ilog2_adjust_def
  bit_length_numeral bit_length_1 round_half_even_div_def round_pick_def scaled_round_def
  carry_def float_of_dyadic_def float_of_quotient_def aligned_def

lemma lit_1_1: "lit 1 1 = Finite 4503599627370496 (- 52)"
  by (simp add: lit_def float_eval split del: if_split)

lemma lit_395_10: "lit 395 10 = Finite 5559130790035456 (- 47)"
  by (simp add: lit_def float_eval split del: if_split)

lemma lit_92_100: "lit 92 100 = Finite 8286623314361713 (- 53)"
  by (simp add: lit_def float_eval split del: if_split)

lemma reciprocal_395_10:
  "fdiv (Finite 4503599627370496 (- 52)) (Finite 5559130790035456 (- 47)) =
     Inr (Finite 7296971548144601 (- 58))"
  by (simp add: float_eval split del: if_split)

lemma reciprocal_92_100:
  "fdiv (Finite 4503599627370496 (- 52)) (Finite 8286623314361713 (- 53)) =
     Inr (Finite 4895216986272278 (- 52))"
  by (simp add: float_eval split del: if_split)

lemma uan_eur:
  "fmul (Finite 7296971548144601 (- 58)) (Finite 8286623314361713 (- 53)) =
     Finite 6713213824293033 (- 58)"
  by (simp add: float_eval split del: if_split)

lemma eur_uan:
  "fmul (Finite 4895216986272278 (- 52)) (Finite 5559130790035456 (- 47)) =
     Finite 6042533467429843 (- 47)"
  by (simp add: float_eval split del: if_split)

lemma exchange_rates_eq:
  "exchange_rates = Inr
     [((''USD'', ''UAN''), Finite 5559130790035456 (- 47)),
      ((''UAN'', ''USD''), Finite 7296971548144601 (- 58)),
      ((''USD'', ''EUR''), Finite 8286623314361713 (- 53)),
      ((''EUR'', ''USD''), Finite 4895216986272278 (- 52)),
      ((''UAN'', ''EUR''), Finite 6713213824293033 (- 58)),
      ((''EUR'', ''UAN''), Finite 6042533467429843 (- 47))]"
  unfolding exchange_rates_def lit_1_1 lit_395_10 lit_92_100 reciprocal_395_10
    reciprocal_92_100 bind_exn_def sum.case uan_eur eur_uan
  by (rule refl)

lemma int_to_float_huge:
  "int_to_float huge = Inl (OverflowError ''int too large to convert to float'')"
  by (simp add: huge_def int_to_float_def float_eval split del: if_split)

lemma huge_ge_0: "num_ge (PInt huge) (PInt 0)"
  by (simp add: huge_def num_ge_def num_le_def aligned_def)

section \<open>Order of numbers\<close>

lemma float_lt_le: "float_lt x y \<Longrightarrow> \<not> float_le y x"
  by (cases x; cases y) (auto simp: min.commute)

lemma float_le_lt: "float_le x y \<Longrightarrow> \<not> float_lt y x"
  by (cases x; cases y) (auto simp: min.commute)

lemma num_ge_not_lt: "num_ge n m \<Longrightarrow> \<not> num_lt n m"
  by (simp add: num_ge_def num_le_def num_lt_def float_le_lt)

lemma num_lt_not_le: "num_lt m n \<Longrightarrow> \<not> num_le n m"
  by (simp add: num_le_def num_lt_def float_lt_le)

lemma num_le_not_gt: "num_le n m \<Longrightarrow> \<not> num_gt n m"
  by (simp add: num_gt_def num_le_def num_lt_def float_le_lt)

section \<open>Exchange rates\<close>

text \<open>
  C7. \<open>get_exchange_rate(c, c)\<close> is \<open>1.0\<close> for every currency \<open>c\<close>, in the table or not.
  For two distinct currencies the result is the entry of a fixed table of six directed
  pairs, or \<open>None\<close>: USD to UAN is \<open>39.5\<close> and USD to EUR is \<open>0.92\<close>, the reverse
  directions are the float quotients \<open>1 / 39.5\<close> and \<open>1 / 0.92\<close>, and the two rates
  between UAN and EUR are the float products of a reverse rate with a base rate. So
  \<open>get_exchange_rate('USD', 'UAN')\<close> is \<open>39.5\<close> and \<open>get_exchange_rate('USD', 'GBP')\<close> is
  \<open>None\<close>.
\<close>

theorem get_exchange_rate_table:
  "get_exchange_rate c c = Inr (Some (lit 1 1))
   \<and> float_eq (lit 1 1) (Finite 1 0)
   \<and> (c \<noteq> d \<longrightarrow>
        get_exchange_rate c d = Inr (map_of
          [((''USD'', ''UAN''), lit 395 10),
           ((''UAN'', ''USD''), Finite 7296971548144601 (- 58)),
           ((''USD'', ''EUR''), lit 92 100),
           ((''EUR'', ''USD''), Finite 4895216986272278 (- 52)),
           ((''UAN'', ''EUR''), Finite 6713213824293033 (- 58)),
           ((''EUR'', ''UAN''), Finite 6042533467429843 (- 47))] (c, d)))
   \<and> fdiv (lit 1 1) (lit 395 10) = Inr (Finite 7296971548144601 (- 58))
   \<and> fdiv (lit 1 1) (lit 92 100) = Inr (Finite 4895216986272278 (- 52))
   \<and> fmul (Finite 7296971548144601 (- 58)) (lit 92 100) = Finite 6713213824293033 (- 58)
   \<and> fmul (Finite 4895216986272278 (- 52)) (lit 395 10) = Finite 6042533467429843 (- 47)
   \<and> get_exchange_rate ''USD'' ''UAN'' = Inr (Some (lit 395 10))
   \<and> get_exchange_rate ''USD'' ''GBP'' = Inr None"
proof -
  have same: "get_exchange_rate c c = Inr (Some (lit 1 1))"
    by (simp add: get_exchange_rate_def exchange_rates_eq bind_exn_def)
  have one: "float_eq (lit 1 1) (Finite 1 0)"
    by (simp add: lit_1_1 aligned_def)
  have other: "c \<noteq> d \<longrightarrow>
        get_exchange_rate c d = Inr (map_of
          [((''USD'', ''UAN''), lit 395 10),
           ((''UAN'', ''USD''), Finite 7296971548144601 (- 58)),
           ((''USD'', ''EUR''), lit 92 100),
           ((''EUR'', ''USD''), Finite 4895216986272278 (- 52)),
           ((''UAN'', ''EUR''), Finite 6713213824293033 (- 58)),
           ((''EUR'', ''UAN''), Finite 6042533467429843 (- 47))] (c, d))"
  proof (rule impI)
    assume neq: "c \<noteq> d"
    show "get_exchange_rate c d = Inr (map_of
          [((''USD'', ''UAN''), lit 395 10),
           ((''UAN'', ''USD''), Finite 7296971548144601 (- 58)),
           ((''USD'', ''EUR''), lit 92 100),
           ((''EUR'', ''USD''), Finite 4895216986272278 (- 52)),
           ((''UAN'', ''EUR''), Finite 6713213824293033 (- 58)),
           ((''EUR'', ''UAN''), Finite 6042533467429843 (- 47))] (c, d))"
      unfolding lit_395_10 lit_92_100
      by (simp only: get_exchange_rate_def exchange_rates_eq bind_exn_def sum.case
          if_not_P [OF neq])
  qed
  have usd_uan: "get_exchange_rate ''USD'' ''UAN'' = Inr (Some (lit 395 10))"
    by (simp add: get_exchange_rate_def exchange_rates_eq bind_exn_def lit_395_10)
  have usd_gbp: "get_exchange_rate ''USD'' ''GBP'' = Inr None"
    by (simp add: get_exchange_rate_def exchange_rates_eq bind_exn_def)
  show ?thesis
    using same one other usd_uan usd_gbp
    by (simp only: lit_1_1 lit_395_10 lit_92_100 reciprocal_395_10 reciprocal_92_100
        uan_eur eur_uan simp_thms)
qed

theorem get_exchange_rate_table_witness:
  "''EUR'' \<noteq> ''UAN'' \<and>
   get_exchange_rate ''EUR'' ''UAN'' = Inr (Some (Finite 6042533467429843 (- 47))) \<and>
   get_exchange_rate ''GBP'' ''GBP'' = Inr (Some (lit 1 1))"
  using get_exchange_rate_table [of "''EUR''" "''UAN''"]
    get_exchange_rate_table [of "''GBP''" "''GBP''"]
  by simp

section \<open>Deposit and withdrawal\<close>

lemma strip_kinds:
  "\<not> strip_is_empty ''deposit''" "\<not> strip_is_empty ''withdraw''"
  "\<not> strip_is_empty (''transfer_to_'' @ s)" "\<not> strip_is_empty (''transfer_from_'' @ s)"
  by (simp_all add: strip_is_empty_def is_space_def)

lemma deposit_never_raises: "\<exists>r. fst (deposit a amt cur now) = Inr r"
  by (simp add: deposit_def split: prod.splits sum.splits)

lemma withdraw_never_raises: "\<exists>r. fst (withdraw a amt cur now) = Inr r"
  by (simp add: withdraw_def split: prod.splits sum.splits)

text \<open>
  C5, as amended. For every valid deposit (a numeric amount that is \<open>\<ge> 0\<close>, in the
  currency of the account) whose sum \<open>old_balance + amount\<close> can be computed, \<open>deposit\<close>
  succeeds, the new balance is that sum, and the log grows by exactly one record: its kind
  is \<open>deposit\<close>, its amount and currency are the deposited ones, its id is the previous
  length of the log plus 1. When the sum cannot be computed, because an \<open>int\<close> operand is
  too large to be converted to \<open>float\<close>, \<open>deposit\<close> returns an error message and changes
  nothing.
\<close>

theorem deposit_valid:
  assumes "num_ge n (PInt 0)" and "cur = PyStr (currency a)"
  shows "case num_add (balance a) n of
           Inr b \<Rightarrow>
             deposit a (PyNum n) cur now =
               (Inr (Text ''Deposit successful''), appended a b n ''deposit'' now)
         | Inl err \<Rightarrow>
             deposit a (PyNum n) cur now =
               (Inr (Text (''Deposit error: '' @ exn_str err)), a)"
  using assms
  by (simp add: deposit_def deposit_body_def Transaction_init_def num_ge_not_lt strip_kinds
      appended_def split: sum.splits)

theorem deposit_valid_witness:
  "num_ge (PInt 100) (PInt 0) \<and>
   deposit (Bankaccount_init 1 (PInt 500) ''USD'') (PyNum (PInt 100)) (PyStr ''USD'') clock1 =
     (Inr (Text ''Deposit successful''),
      \<lparr>account_id = 1, balance = PInt 600, currency = ''USD'',
       transactions =
         [\<lparr>transaction_id = 1, amount = PInt 100, transaction_type = ''deposit'',
           time_stamp = clock1, currency = ''USD''\<rparr>]\<rparr>)"
proof -
  have ge: "num_ge (PInt 100) (PInt 0)"
    by (simp add: num_ge_def num_le_def aligned_def)
  show ?thesis
    using ge deposit_valid [OF ge, of "PyStr ''USD''" "Bankaccount_init 1 (PInt 500) ''USD''" clock1]
    by (simp add: Bankaccount_init_def appended_def)
qed

theorem deposit_overflow_counterexample:
  "num_ge (PInt huge) (PInt 0) \<and>
   deposit (Bankaccount_init 1 (PFloat (Finite 0 (- 1074))) ''USD'')
       (PyNum (PInt huge)) (PyStr ''USD'') clock1 =
     (Inr (Text ''Deposit error: int too large to convert to float''),
      Bankaccount_init 1 (PFloat (Finite 0 (- 1074))) ''USD'')"
  by (simp add: deposit_def deposit_body_def Bankaccount_init_def int_to_float_huge
      huge_ge_0 num_ge_not_lt)

text \<open>
  The checks of \<open>withdraw\<close>, in the order of the code; each stops the call with its
  reason: the amount is numeric; then the amount is not \<open>< 0\<close>; then the currency is the
  currency of the account; then the amount is not \<open>> balance\<close>. Every call that does not
  report success leaves the balance and the log unchanged, and an account with balance 500
  asked for 1000 answers that the amount is greater than the balance and keeps its balance
  of 500 and its log.
\<close>

lemma withdraw_order:
  "((\<forall>n. amt \<noteq> PyNum n) \<longrightarrow>
      withdraw a amt cur now = (Inr (Text ''Withdrawal error:Value must be a number''), a))
   \<and> (num_lt n (PInt 0) \<longrightarrow>
      withdraw a (PyNum n) cur now =
        (Inr (Text ''Withdrawal error:Amount cannot be negative''), a))
   \<and> (\<not> num_lt n (PInt 0) \<and> cur \<noteq> PyStr (currency a) \<longrightarrow>
      withdraw a (PyNum n) cur now =
        (Inr (Text ''Withdrawal error:Currency cannot be changed''), a))
   \<and> (\<not> num_lt n (PInt 0) \<and> cur = PyStr (currency a) \<and> num_gt n (balance a) \<longrightarrow>
      withdraw a (PyNum n) cur now =
        (Inr (Text ''Withdrawal error:Amount cannot be greater than balance''), a))
   \<and> (fst (withdraw a amt cur now) \<noteq> Inr (Text ''Withdrawal was successful'') \<longrightarrow>
      snd (withdraw a amt cur now) = a)
   \<and> withdraw (Bankaccount_init 1 (PInt 500) ''USD'') (PyNum (PInt 1000)) (PyStr ''USD'') now =
        (Inr (Text ''Withdrawal error:Amount cannot be greater than balance''),
         Bankaccount_init 1 (PInt 500) ''USD'')"
proof -
  have not_numeric: "(\<forall>n. amt \<noteq> PyNum n) \<longrightarrow>
      withdraw a amt cur now = (Inr (Text ''Withdrawal error:Value must be a number''), a)"
    by (cases amt) (simp_all add: withdraw_def withdraw_body_def)
  have unchanged: "fst (withdraw a amt cur now) \<noteq> Inr (Text ''Withdrawal was successful'') \<longrightarrow>
      snd (withdraw a amt cur now) = a"
    by (cases amt)
      (simp_all add: withdraw_def withdraw_body_def Transaction_init_def strip_kinds
        split: sum.splits)
  have scenario:
    "withdraw (Bankaccount_init 1 (PInt 500) ''USD'') (PyNum (PInt 1000)) (PyStr ''USD'') now =
        (Inr (Text ''Withdrawal error:Amount cannot be greater than balance''),
         Bankaccount_init 1 (PInt 500) ''USD'')"
    by (simp add: withdraw_def withdraw_body_def Bankaccount_init_def num_lt_def num_gt_def
        aligned_def)
  show ?thesis
    using not_numeric unchanged scenario by (simp add: withdraw_def withdraw_body_def)
qed

lemma withdraw_order_scenarios:
  "num_lt (PInt (- 5)) (PInt 0) \<and>
   withdraw (Bankaccount_init 1 (PInt 500) ''USD'') (PyNum (PInt (- 5))) (PyStr ''EUR'') clock1 =
     (Inr (Text ''Withdrawal error:Amount cannot be negative''),
      Bankaccount_init 1 (PInt 500) ''USD'') \<and>
   PyStr ''EUR'' \<noteq> PyStr (currency (Bankaccount_init 1 (PInt 500) ''USD'')) \<and>
   withdraw (Bankaccount_init 1 (PInt 500) ''USD'') (PyNum (PInt 1000)) (PyStr ''EUR'') clock1 =
     (Inr (Text ''Withdrawal error:Currency cannot be changed''),
      Bankaccount_init 1 (PInt 500) ''USD'') \<and>
   withdraw (Bankaccount_init 1 (PInt 500) ''USD'') PyNone (PyStr ''EUR'') clock1 =
     (Inr (Text ''Withdrawal error:Value must be a number''),
      Bankaccount_init 1 (PInt 500) ''USD'')"
proof -
  have neg: "num_lt (PInt (- 5)) (PInt 0)"
    by (simp add: num_lt_def aligned_def)
  have pos: "\<not> num_lt (PInt 1000) (PInt 0)"
    by (simp add: num_lt_def aligned_def)
  have cur: "PyStr ''EUR'' \<noteq> PyStr (currency (Bankaccount_init 1 (PInt 500) ''USD''))"
    by (simp add: Bankaccount_init_def)
  note w = withdraw_order [of _ "Bankaccount_init 1 (PInt 500) ''USD''" "PyStr ''EUR''" clock1]
  show ?thesis
    using neg pos cur w [of PyNone "PInt (- 5)"] w [of PyNone "PInt 1000"]
    by simp
qed

text \<open>
  C4. The two range checks of \<open>withdraw\<close> are the comparisons \<open>amount < 0\<close> and
  \<open>amount > self.balance\<close>. A \<open>nan\<close> amount (the command line reads the amount with
  \<open>float\<close>, which accepts \<open>nan\<close>) is neither \<open>\<ge> 0\<close> nor \<open>\<le> balance\<close>, yet both
  comparisons are false for it: the withdrawal passes every check, reports success, sets the
  balance of an account holding 500 to \<open>nan\<close> and logs a \<open>withdraw\<close> record of amount
  \<open>nan\<close>.
\<close>

theorem withdraw_accepts_nan:
  "\<not> num_ge (PFloat NaN) (PInt 0) \<and>
   \<not> num_le (PFloat NaN) (balance (Bankaccount_init 1 (PInt 500) ''USD'')) \<and>
   withdraw (Bankaccount_init 1 (PInt 500) ''USD'') (PyNum (PFloat NaN)) (PyStr ''USD'') clock1 =
     (Inr (Text ''Withdrawal was successful''),
      \<lparr>account_id = 1, balance = PFloat NaN, currency = ''USD'',
       transactions =
         [\<lparr>transaction_id = 1, amount = PFloat NaN, transaction_type = ''withdraw'',
           time_stamp = clock1, currency = ''USD''\<rparr>]\<rparr>)"
  by (simp add: withdraw_def withdraw_body_def Bankaccount_init_def num_ge_def num_le_def
      num_lt_def num_gt_def int_to_float_def float_eval fsub_def Transaction_init_def
      strip_kinds split del: if_split)

section \<open>Transfer\<close>

lemma num_add_error:
  "num_add x y = Inl err \<Longrightarrow> err = OverflowError ''int too large to convert to float''"
  by (cases x; cases y) (auto simp: int_to_float_def split: sum.splits pyfloat.splits)

lemma num_sub_error:
  "num_sub x y = Inl err \<Longrightarrow> err = OverflowError ''int too large to convert to float''"
  by (cases x; cases y) (auto simp: int_to_float_def split: sum.splits pyfloat.splits)

lemma mul_float_error:
  "mul_float x y = Inl err \<Longrightarrow> err = OverflowError ''int too large to convert to float''"
  by (cases x) (auto simp: int_to_float_def split: sum.splits pyfloat.splits)

lemma float_to_int_integer: "is_integer c \<Longrightarrow> \<exists>i. float_to_int c = Inr i"
  by (cases c) simp_all

lemma get_exchange_rate_total: "\<exists>r. get_exchange_rate c d = Inr r"
  by (simp add: get_exchange_rate_def exchange_rates_eq bind_exn_def)

lemmas transfer_unfold = transfer_body_def Transaction_init_def strip_is_empty_def is_space_def
  Let_def

lemma spec_convertedD:
  assumes "spec_converted h s t n = Some c"
  obtains rate p where "get_exchange_rate (currency (h s)) (currency (h t)) = Inr (Some rate)"
    and "mul_float n rate = Inr p" and "c = py_round2 p"
  using assms by (auto simp: spec_converted_def split: sum.splits option.splits)

lemma spec_debitD:
  assumes "spec_debit h s t n now = Inr h1"
  obtains b where "num_sub (balance (h s)) n = Inr b"
    and "h1 = h(s := appended (h s) b n (''transfer_to_'' @ str_int (account_id (h t))) now)"
  using assms by (auto simp: spec_debit_def split: sum.splits)

lemma spec_creditD:
  assumes "spec_credit h s t c now = Inr h2"
  obtains b where "num_add (balance (h t)) (PFloat c) = Inr b"
    and "h2 = h(t := appended (h t) b (PFloat c)
                  (''transfer_from_'' @ str_int (account_id (h s))) now)"
  using assms by (auto simp: spec_credit_def split: sum.splits)

lemma transfer_body_success:
  assumes checks: "\<not> num_le n (PInt 0)" "cur = PyStr (currency (h s))"
      "\<not> num_gt n (balance (h s))"
    and conv: "spec_converted h s t n = Some c"
    and debit: "spec_debit h s t n now1 = Inr h1"
    and credit: "spec_credit h1 s t c now2 = Inr h2"
  shows "transfer_body h s t (PyNum n) cur now1 now2 =
           (Inr (TransferCompleted n (currency (h s)) (formated c) (currency (h t))), h2)"
proof -
  from conv obtain rate p where
    rate: "get_exchange_rate (currency (h s)) (currency (h t)) = Inr (Some rate)"
    and p: "mul_float n rate = Inr p" and c: "c = py_round2 p"
    by (rule spec_convertedD)
  from debit obtain b1 where
    b1: "num_sub (balance (h s)) n = Inr b1"
    and h1: "h1 = h(s := appended (h s) b1 n (''transfer_to_'' @ str_int (account_id (h t))) now1)"
    by (rule spec_debitD)
  from credit obtain b2 where
    b2: "num_add (balance (h1 t)) (PFloat c) = Inr b2"
    and h2: "h2 = h1(t := appended (h1 t) b2 (PFloat c)
                  (''transfer_from_'' @ str_int (account_id (h1 s))) now2)"
    by (rule spec_creditD)
  show ?thesis
  proof (cases "s = t")
    case True
    with checks rate p c b1 h1 b2 h2 float_to_int_integer [of c] show ?thesis
      by (cases "is_integer c") (auto simp: transfer_unfold appended_def formated_def)
  next
    case False
    with checks rate p c b1 h1 b2 h2 float_to_int_integer [of c] show ?thesis
      by (cases "is_integer c") (auto simp: transfer_unfold appended_def formated_def)
  qed
qed

lemma transfer_body_credit_fails:
  assumes checks: "\<not> num_le n (PInt 0)" "cur = PyStr (currency (h s))"
      "\<not> num_gt n (balance (h s))"
    and conv: "spec_converted h s t n = Some c"
    and debit: "spec_debit h s t n now1 = Inr h1"
    and credit: "spec_credit h1 s t c now2 = Inl err"
  shows "transfer_body h s t (PyNum n) cur now1 now2 = (Inl err, h1)"
proof -
  from conv obtain rate p where
    rate: "get_exchange_rate (currency (h s)) (currency (h t)) = Inr (Some rate)"
    and p: "mul_float n rate = Inr p" and c: "c = py_round2 p"
    by (rule spec_convertedD)
  from debit obtain b1 where
    b1: "num_sub (balance (h s)) n = Inr b1"
    and h1: "h1 = h(s := appended (h s) b1 n (''transfer_to_'' @ str_int (account_id (h t))) now1)"
    by (rule spec_debitD)
  from credit have b2: "num_add (balance (h1 t)) (PFloat c) = Inl err"
    by (auto simp: spec_credit_def split: sum.splits)
  show ?thesis
  proof (cases "s = t")
    case True
    with checks rate p c b1 h1 b2 show ?thesis
      by (auto simp: transfer_unfold appended_def)
  next
    case False
    with checks rate p c b1 h1 b2 show ?thesis
      by (auto simp: transfer_unfold appended_def)
  qed
qed

lemma transfer_body_early:
  assumes "(\<forall>n. amt = PyNum n \<longrightarrow>
            num_le n (PInt 0) \<or> cur \<noteq> PyStr (currency (h s)) \<or> num_gt n (balance (h s)) \<or>
            spec_converted h s t n = None \<or> (\<exists>err. spec_debit h s t n now1 = Inl err))"
  shows "snd (transfer_body h s t amt cur now1 now2) = h"
proof (cases amt)
  case (PyNum n)
  with assms have
    "num_le n (PInt 0) \<or> cur \<noteq> PyStr (currency (h s)) \<or> num_gt n (balance (h s)) \<or>
     spec_converted h s t n = None \<or> (\<exists>err. spec_debit h s t n now1 = Inl err)"
    by simp
  with PyNum show ?thesis
    by (auto simp: transfer_body_def spec_converted_def spec_debit_def
        split: sum.splits option.splits)
qed (simp_all add: transfer_body_def)

lemma snd_transfer: "snd (transfer h s t amt cur now1 now2) = snd (transfer_body h s t amt cur now1 now2)"
  by (simp add: transfer_def split: prod.splits sum.splits exn.splits)

lemma transfer_reply:
  "transfer_body h s t amt cur now1 now2 = (Inr r, h') \<Longrightarrow>
   transfer h s t amt cur now1 now2 = (Inr r, h')"
  by (simp add: transfer_def)

lemma spec_credit_error:
  "spec_credit h s t c now = Inl err \<Longrightarrow> err = OverflowError ''int too large to convert to float''"
  by (auto simp: spec_credit_def split: sum.splits dest: num_add_error)

text \<open>
  What a call of \<open>transfer\<close> can leave behind. Either no account has changed; or both
  legs are applied, the credit to the state the debit has left; or the debit leg alone is
  applied, which happens exactly when the credit raises \<open>OverflowError\<close>, and then the call
  raises it.
\<close>

lemma transfer_outcomes:
  "snd (transfer h s t amt cur now1 now2) = h
   \<or> (\<exists>n c h1. amt = PyNum n \<and> spec_converted h s t n = Some c
         \<and> spec_debit h s t n now1 = Inr h1
         \<and> (spec_credit h1 s t c now2 = Inr (snd (transfer h s t amt cur now1 now2))
            \<or> (spec_credit h1 s t c now2 =
                  Inl (OverflowError ''int too large to convert to float'')
               \<and> transfer h s t amt cur now1 now2 =
                  (Inl (OverflowError ''int too large to convert to float''), h1))))"
proof (cases "\<forall>n. amt = PyNum n \<longrightarrow>
            num_le n (PInt 0) \<or> cur \<noteq> PyStr (currency (h s)) \<or> num_gt n (balance (h s)) \<or>
            spec_converted h s t n = None \<or> (\<exists>err. spec_debit h s t n now1 = Inl err)")
  case True
  then have "snd (transfer h s t amt cur now1 now2) = h"
    by (simp only: snd_transfer transfer_body_early)
  then show ?thesis by simp
next
  case False
  then obtain n c h1 where amt: "amt = PyNum n"
    and checks: "\<not> num_le n (PInt 0)" "cur = PyStr (currency (h s))"
      "\<not> num_gt n (balance (h s))"
    and conv: "spec_converted h s t n = Some c"
    and debit: "spec_debit h s t n now1 = Inr h1"
    by (auto simp: not_Some_eq [symmetric] simp del: not_Some_eq not_None_eq
        intro: sum.exhaust [of "spec_debit h s t n now1" for n])
  show ?thesis
  proof (cases "spec_credit h1 s t c now2")
    case (Inr h2)
    have "transfer_body h s t amt cur now1 now2 =
            (Inr (TransferCompleted n (currency (h s)) (formated c) (currency (h t))), h2)"
      unfolding amt by (rule transfer_body_success [OF checks conv debit Inr])
    then have "snd (transfer h s t amt cur now1 now2) = h2"
      by (simp add: snd_transfer)
    with amt conv debit Inr show ?thesis by auto
  next
    case (Inl err)
    then have err: "err = OverflowError ''int too large to convert to float''"
      by (rule spec_credit_error)
    have body: "transfer_body h s t amt cur now1 now2 = (Inl err, h1)"
      unfolding amt by (rule transfer_body_credit_fails [OF checks conv debit Inl])
    then have "transfer h s t amt cur now1 now2 = (Inl err, h1)"
      by (simp add: transfer_def err)
    with amt conv debit Inl err show ?thesis by auto
  qed
qed

subsection \<open>Concrete transfers\<close>

lemma lit_9108_100: "lit 9108 100 = Finite 6409185219701637 (- 46)"
  by (simp add: lit_def float_eval split del: if_split)

lemma lit_11_100: "lit 11 100 = Finite 7926335344172073 (- 56)"
  by (simp add: lit_def float_eval split del: if_split)

lemma lit_4_100: "lit 4 100 = Finite 5764607523034235 (- 57)"
  by (simp add: lit_def float_eval split del: if_split)

lemma rate_same: "get_exchange_rate c c = Inr (Some (Finite 4503599627370496 (- 52)))"
  by (simp add: get_exchange_rate_def exchange_rates_eq bind_exn_def lit_1_1)

lemma rate_usd_eur:
  "get_exchange_rate ''USD'' ''EUR'' = Inr (Some (Finite 8286623314361713 (- 53)))"
  by (simp add: get_exchange_rate_def exchange_rates_eq bind_exn_def)

lemma mul_99_rate:
  "mul_float (PInt 99) (Finite 8286623314361713 (- 53)) = Inr (Finite 6409185219701637 (- 46))"
  by (simp add: int_to_float_def float_eval split del: if_split)

lemma round_9108:
  "py_round2 (Finite 6409185219701637 (- 46)) = Finite 6409185219701637 (- 46)"
  by (simp add: float_eval split del: if_split)

lemma add_0_9108:
  "num_add (PInt 0) (PFloat (Finite 6409185219701637 (- 46))) =
     Inr (PFloat (Finite 6409185219701637 (- 46)))"
  by (simp add: int_to_float_def float_eval split del: if_split)

lemma mul_100_one:
  "mul_float (PInt 100) (Finite 4503599627370496 (- 52)) = Inr (Finite 7036874417766400 (- 46))"
  by (simp add: int_to_float_def float_eval split del: if_split)

lemma round_100:
  "py_round2 (Finite 7036874417766400 (- 46)) = Finite 7036874417766400 (- 46)"
  by (simp add: float_eval split del: if_split)

lemma add_400_100:
  "num_add (PInt 400) (PFloat (Finite 7036874417766400 (- 46))) =
     Inr (PFloat (Finite 8796093022208000 (- 44)))"
  by (simp add: int_to_float_def float_eval split del: if_split)

lemma add_300_100:
  "num_add (PInt 300) (PFloat (Finite 7036874417766400 (- 46))) =
     Inr (PFloat (Finite 7036874417766400 (- 44)))"
  by (simp add: int_to_float_def float_eval split del: if_split)

lemma mul_004_one:
  "mul_float (PFloat (Finite 5764607523034235 (- 57))) (Finite 4503599627370496 (- 52)) =
     Inr (Finite 5764607523034235 (- 57))"
  by (simp add: float_eval split del: if_split)

lemma round_004:
  "py_round2 (Finite 5764607523034235 (- 57)) = Finite 5764607523034235 (- 57)"
  by (simp add: float_eval split del: if_split)

lemma sub_011_004:
  "num_sub (PFloat (Finite 7926335344172073 (- 56))) (PFloat (Finite 5764607523034235 (- 57))) =
     Inr (PFloat (Finite 5044031582654956 (- 56)))"
  by (simp add: fsub_def float_eval split del: if_split)

lemma add_007_004:
  "num_add (PFloat (Finite 5044031582654956 (- 56))) (PFloat (Finite 5764607523034235 (- 57))) =
     Inr (PFloat (Finite 7926335344172074 (- 56)))"
  by (simp add: float_eval split del: if_split)

lemma lit_1087_100: "lit 1087 100 = Finite 6119265993689661 (- 49)"
  by (simp add: lit_def float_eval split del: if_split)

lemma lit_125_1000: "lit 125 1000 = Finite 4503599627370496 (- 55)"
  by (simp add: lit_def float_eval split del: if_split)

lemma lit_12_100: "lit 12 100 = Finite 8646911284551352 (- 56)"
  by (simp add: lit_def float_eval split del: if_split)

lemma rate_eur_usd:
  "get_exchange_rate ''EUR'' ''USD'' = Inr (Some (Finite 4895216986272278 (- 52)))"
  by (simp add: get_exchange_rate_def exchange_rates_eq bind_exn_def)

lemma mul_10_rate:
  "mul_float (PInt 10) (Finite 4895216986272278 (- 52)) = Inr (Finite 6119021232840348 (- 49))"
  by (simp add: int_to_float_def float_eval split del: if_split)

lemma round_1087:
  "py_round2 (Finite 6119021232840348 (- 49)) = Finite 6119265993689661 (- 49)"
  by (simp add: float_eval split del: if_split)

lemma round_tie:
  "py_round2 (Finite 4503599627370496 (- 55)) = Finite 8646911284551352 (- 56)"
  by (simp add: float_eval split del: if_split)

lemma add_0_1087:
  "num_add (PInt 0) (PFloat (Finite 6119265993689661 (- 49))) =
     Inr (PFloat (Finite 6119265993689661 (- 49)))"
  by (simp add: int_to_float_def float_eval split del: if_split)

lemmas arith_eval = num_add.simps(2-4) num_sub.simps(2-4) mul_float.simps py_round2.simps(1)

lemmas transfer_eval = transfer_def transfer_body_def Transaction_init_def strip_is_empty_def
  is_space_def Let_def two_accounts_def Bankaccount_init_def str_int_def str_nat.simps
  digit_char_def num_le_def num_lt_def num_gt_def aligned_def

lemma transfer_scenario:
  "transfer (two_accounts (Bankaccount_init 1 (PInt 500) ''USD'')
                          (Bankaccount_init 2 (PInt 0) ''EUR''))
       0 1 (PyNum (PInt 99)) (PyStr ''USD'') clock1 clock2 =
     (Inr (TransferCompleted (PInt 99) ''USD'' (PFloat (Finite 6409185219701637 (- 46))) ''EUR''),
      (two_accounts (Bankaccount_init 1 (PInt 500) ''USD'') (Bankaccount_init 2 (PInt 0) ''EUR''))
        (0 := \<lparr>account_id = 1, balance = PInt 401, currency = ''USD'',
               transactions =
                 [\<lparr>transaction_id = 1, amount = PInt 99, transaction_type = ''transfer_to_2'',
                   time_stamp = clock1, currency = ''USD''\<rparr>]\<rparr>,
         1 := \<lparr>account_id = 2, balance = PFloat (Finite 6409185219701637 (- 46)),
               currency = ''EUR'',
               transactions =
                 [\<lparr>transaction_id = 1, amount = PFloat (Finite 6409185219701637 (- 46)),
                   transaction_type = ''transfer_from_1'', time_stamp = clock2,
                   currency = ''EUR''\<rparr>]\<rparr>))"
  by (simp add: transfer_eval rate_usd_eur mul_99_rate round_9108 add_0_9108 del: arith_eval)

lemma transfer_scenario_rounding:
  "transfer (two_accounts (Bankaccount_init 1 (PInt 500) ''EUR'')
                          (Bankaccount_init 2 (PInt 0) ''USD''))
       0 1 (PyNum (PInt 10)) (PyStr ''EUR'') clock1 clock2 =
     (Inr (TransferCompleted (PInt 10) ''EUR'' (PFloat (Finite 6119265993689661 (- 49))) ''USD''),
      (two_accounts (Bankaccount_init 1 (PInt 500) ''EUR'') (Bankaccount_init 2 (PInt 0) ''USD''))
        (0 := \<lparr>account_id = 1, balance = PInt 490, currency = ''EUR'',
               transactions =
                 [\<lparr>transaction_id = 1, amount = PInt 10, transaction_type = ''transfer_to_2'',
                   time_stamp = clock1, currency = ''EUR''\<rparr>]\<rparr>,
         1 := \<lparr>account_id = 2, balance = PFloat (Finite 6119265993689661 (- 49)),
               currency = ''USD'',
               transactions =
                 [\<lparr>transaction_id = 1, amount = PFloat (Finite 6119265993689661 (- 49)),
                   transaction_type = ''transfer_from_1'', time_stamp = clock2,
                   currency = ''USD''\<rparr>]\<rparr>))"
  by (simp add: transfer_eval rate_eur_usd mul_10_rate round_1087 add_0_1087 del: arith_eval)

subsection \<open>Rounding at two decimal places\<close>

lemma round_pick_nearest:
  assumes "0 < b" and "0 \<le> r" and "r < b"
  shows "\<bar>2 * (d * b + r) - 2 * round_pick d r b * b\<bar> \<le> b \<and>
         (\<bar>2 * (d * b + r) - 2 * round_pick d r b * b\<bar> = b \<longrightarrow> even (round_pick d r b))"
proof -
  have down: "2 * (d * b + r) - 2 * d * b = 2 * r"
    by (simp add: algebra_simps)
  have up: "2 * (d * b + r) - 2 * (d + 1) * b = 2 * r - 2 * b"
    by (simp add: algebra_simps)
  consider "2 * r < b" | "b < 2 * r" | "2 * r = b" "even d" | "2 * r = b" "odd d"
    by linarith
  then show ?thesis
  proof cases
    case 1
    then have "round_pick d r b = d" by (simp add: round_pick_def)
    with 1 assms down show ?thesis by simp
  next
    case 2
    then have "round_pick d r b = d + 1" by (simp add: round_pick_def)
    with 2 assms up show ?thesis by simp
  next
    case 3
    then have "round_pick d r b = d" by (simp add: round_pick_def)
    with 3 assms down show ?thesis by simp
  next
    case 4
    then have "round_pick d r b = d + 1" by (simp add: round_pick_def)
    with 4 assms up show ?thesis by simp
  qed
qed

lemma round_half_even_div_nearest:
  assumes "0 < b"
  shows "\<bar>2 * a - 2 * round_half_even_div a b * b\<bar> \<le> b \<and>
         (\<bar>2 * a - 2 * round_half_even_div a b * b\<bar> = b \<longrightarrow> even (round_half_even_div a b))"
proof -
  have a: "a = a div b * b + a mod b" by simp
  have "0 \<le> a mod b" "a mod b < b" using assms by simp_all
  from round_pick_nearest [OF assms this, of "a div b"] show ?thesis
    unfolding round_half_even_div_def a [symmetric] .
qed

lemma py_round2_nearest:
  "\<exists>k. nearest_hundredth m e k \<and> py_round2 (Finite m e) = float_of_ratio k 100"
proof (cases "0 \<le> e")
  case True
  then have "nearest_hundredth m e (100 * m * 2 ^ nat e)"
    by (simp add: nearest_hundredth_def)
  moreover from True have "py_round2 (Finite m e) = float_of_ratio (100 * m * 2 ^ nat e) 100"
    by simp
  ultimately show ?thesis by blast
next
  case False
  then have e: "nat e = 0" by simp
  have "nearest_hundredth m e (round_half_even_div (100 * m) (2 ^ nat (- e)))"
    using round_half_even_div_nearest [of "2 ^ nat (- e)" "100 * m"]
    by (simp add: nearest_hundredth_def e)
  moreover from False have
    "py_round2 (Finite m e) = float_of_ratio (round_half_even_div (100 * m) (2 ^ nat (- e))) 100"
    by simp
  ultimately show ?thesis by blast
qed

lemma transfer_body_early_raises:
  assumes "(\<forall>n. amt = PyNum n \<longrightarrow>
            num_le n (PInt 0) \<or> cur \<noteq> PyStr (currency (h s)) \<or> num_gt n (balance (h s)) \<or>
            spec_converted h s t n = None \<or> (\<exists>err. spec_debit h s t n now1 = Inl err))"
  shows "\<exists>err. fst (transfer_body h s t amt cur now1 now2) = Inl err"
proof (cases amt)
  case (PyNum n)
  with assms have
    "num_le n (PInt 0) \<or> cur \<noteq> PyStr (currency (h s)) \<or> num_gt n (balance (h s)) \<or>
     spec_converted h s t n = None \<or> (\<exists>err. spec_debit h s t n now1 = Inl err)"
    by simp
  with PyNum show ?thesis
    by (auto simp: transfer_body_def spec_converted_def spec_debit_def
        split: sum.splits option.splits)
qed (simp_all add: transfer_body_def)

lemma transfer_not_completed:
  "fst (transfer_body h s t amt cur now1 now2) = Inl err \<Longrightarrow>
   fst (transfer h s t amt cur now1 now2) \<noteq> Inr (TransferCompleted n sc f tc)"
  by (cases "transfer_body h s t amt cur now1 now2"; cases err) (simp_all add: transfer_def)

text \<open>
  C6. A successful transfer credits the target with \<open>round(amount * rate, 2)\<close>: the
  credit leg is applied to the state left by the debit leg, with the product rounded at
  two decimal places, that is, with the float nearest to \<open>k / 100\<close> for an integer \<open>k\<close>
  nearest to a hundred times the product (the even one at a tie). Concretely, account A
  (balance 500, USD) transferring 99 USD to account B (balance 0, EUR) leaves the balance
  401 to A and to B the balance \<open>round(99 * 0.92, 2)\<close>, which is the float \<open>91.08\<close>; the
  log of A ends in a \<open>transfer_to_2\<close> record of amount 99 and the log of B in a
  \<open>transfer_from_1\<close> record of amount \<open>91.08\<close>. Where the product has more than two
  places the rounding changes it: 10 EUR become \<open>10 * (1 / 0.92) = 10.869565217391305\<close>
  and are credited as \<open>10.87\<close> USD, and the tie \<open>0.125\<close> rounds to \<open>0.12\<close>.
\<close>

theorem transfer_converts:
  "(fst (transfer h s t amt cur now1 now2) = Inr (TransferCompleted n sc f tc) \<longrightarrow>
      (\<exists>rate p h1.
          amt = PyNum n
        \<and> get_exchange_rate (currency (h s)) (currency (h t)) = Inr (Some rate)
        \<and> mul_float n rate = Inr p
        \<and> (\<forall>m e. p = Finite m e \<longrightarrow>
              (\<exists>k. nearest_hundredth m e k \<and> py_round2 p = float_of_ratio k 100))
        \<and> spec_debit h s t n now1 = Inr h1
        \<and> spec_credit h1 s t (py_round2 p) now2 = Inr (snd (transfer h s t amt cur now1 now2))))
   \<and> transfer (two_accounts (Bankaccount_init 1 (PInt 500) ''USD'')
                             (Bankaccount_init 2 (PInt 0) ''EUR''))
        0 1 (PyNum (PInt 99)) (PyStr ''USD'') clock1 clock2 =
      (Inr (TransferCompleted (PInt 99) ''USD'' (PFloat (lit 9108 100)) ''EUR''),
       (two_accounts (Bankaccount_init 1 (PInt 500) ''USD'') (Bankaccount_init 2 (PInt 0) ''EUR''))
         (0 := \<lparr>account_id = 1, balance = PInt 401, currency = ''USD'',
                transactions =
                  [\<lparr>transaction_id = 1, amount = PInt 99, transaction_type = ''transfer_to_2'',
                    time_stamp = clock1, currency = ''USD''\<rparr>]\<rparr>,
          1 := \<lparr>account_id = 2, balance = PFloat (lit 9108 100), currency = ''EUR'',
                transactions =
                  [\<lparr>transaction_id = 1, amount = PFloat (lit 9108 100),
                    transaction_type = ''transfer_from_1'', time_stamp = clock2,
                    currency = ''EUR''\<rparr>]\<rparr>))
   \<and> map_sum id py_round2 (mul_float (PInt 99) (lit 92 100)) = Inr (lit 9108 100)
   \<and> transfer (two_accounts (Bankaccount_init 1 (PInt 500) ''EUR'')
                             (Bankaccount_init 2 (PInt 0) ''USD''))
        0 1 (PyNum (PInt 10)) (PyStr ''EUR'') clock1 clock2 =
      (Inr (TransferCompleted (PInt 10) ''EUR'' (PFloat (lit 1087 100)) ''USD''),
       (two_accounts (Bankaccount_init 1 (PInt 500) ''EUR'') (Bankaccount_init 2 (PInt 0) ''USD''))
         (0 := \<lparr>account_id = 1, balance = PInt 490, currency = ''EUR'',
                transactions =
                  [\<lparr>transaction_id = 1, amount = PInt 10, transaction_type = ''transfer_to_2'',
                    time_stamp = clock1, currency = ''EUR''\<rparr>]\<rparr>,
          1 := \<lparr>account_id = 2, balance = PFloat (lit 1087 100), currency = ''USD'',
                transactions =
                  [\<lparr>transaction_id = 1, amount = PFloat (lit 1087 100),
                    transaction_type = ''transfer_from_1'', time_stamp = clock2,
                    currency = ''USD''\<rparr>]\<rparr>))
   \<and> mul_float (PInt 10) (Finite 4895216986272278 (- 52)) =
        Inr (Finite 6119021232840348 (- 49))
   \<and> py_round2 (Finite 6119021232840348 (- 49)) = lit 1087 100
   \<and> lit 1087 100 \<noteq> Finite 6119021232840348 (- 49)
   \<and> py_round2 (lit 125 1000) = lit 12 100"
proof -
  have general: "fst (transfer h s t amt cur now1 now2) = Inr (TransferCompleted n sc f tc) \<longrightarrow>
      (\<exists>rate p h1.
          amt = PyNum n
        \<and> get_exchange_rate (currency (h s)) (currency (h t)) = Inr (Some rate)
        \<and> mul_float n rate = Inr p
        \<and> (\<forall>m e. p = Finite m e \<longrightarrow>
              (\<exists>k. nearest_hundredth m e k \<and> py_round2 p = float_of_ratio k 100))
        \<and> spec_debit h s t n now1 = Inr h1
        \<and> spec_credit h1 s t (py_round2 p) now2 = Inr (snd (transfer h s t amt cur now1 now2)))"
  proof (rule impI)
    assume completed: "fst (transfer h s t amt cur now1 now2) = Inr (TransferCompleted n sc f tc)"
    have "\<not> (\<forall>n. amt = PyNum n \<longrightarrow>
            num_le n (PInt 0) \<or> cur \<noteq> PyStr (currency (h s)) \<or> num_gt n (balance (h s)) \<or>
            spec_converted h s t n = None \<or> (\<exists>err. spec_debit h s t n now1 = Inl err))"
      using transfer_body_early_raises [of amt cur h s t now1 now2] transfer_not_completed completed
      by blast
    then obtain n' c h1 where amt: "amt = PyNum n'"
      and checks: "\<not> num_le n' (PInt 0)" "cur = PyStr (currency (h s))"
        "\<not> num_gt n' (balance (h s))"
      and conv: "spec_converted h s t n' = Some c"
      and debit: "spec_debit h s t n' now1 = Inr h1"
      by (auto simp: not_Some_eq [symmetric] simp del: not_Some_eq not_None_eq
          intro: sum.exhaust [of "spec_debit h s t n now1" for n])
    from conv obtain rate p where
      rate: "get_exchange_rate (currency (h s)) (currency (h t)) = Inr (Some rate)"
      and p: "mul_float n' rate = Inr p" and c: "c = py_round2 p"
      by (rule spec_convertedD)
    have nearest: "\<forall>m e. p = Finite m e \<longrightarrow>
              (\<exists>k. nearest_hundredth m e k \<and> py_round2 p = float_of_ratio k 100)"
      using py_round2_nearest by blast
    show "\<exists>rate p h1.
          amt = PyNum n
        \<and> get_exchange_rate (currency (h s)) (currency (h t)) = Inr (Some rate)
        \<and> mul_float n rate = Inr p
        \<and> (\<forall>m e. p = Finite m e \<longrightarrow>
              (\<exists>k. nearest_hundredth m e k \<and> py_round2 p = float_of_ratio k 100))
        \<and> spec_debit h s t n now1 = Inr h1
        \<and> spec_credit h1 s t (py_round2 p) now2 = Inr (snd (transfer h s t amt cur now1 now2))"
    proof (cases "spec_credit h1 s t c now2")
      case (Inr h2)
      have "transfer h s t amt cur now1 now2 =
              (Inr (TransferCompleted n' (currency (h s)) (formated c) (currency (h t))), h2)"
        unfolding amt
        by (rule transfer_reply [OF transfer_body_success [OF checks conv debit Inr]])
      with completed have n: "n' = n" and h2: "snd (transfer h s t amt cur now1 now2) = h2"
        by simp_all
      from amt rate p nearest debit Inr show ?thesis
        unfolding n h2 c by blast
    next
      case (Inl err)
      have "transfer_body h s t amt cur now1 now2 = (Inl err, h1)"
        unfolding amt by (rule transfer_body_credit_fails [OF checks conv debit Inl])
      then have "fst (transfer_body h s t amt cur now1 now2) = Inl err" by simp
      from transfer_not_completed [OF this] completed show ?thesis by blast
    qed
  qed
  have product: "map_sum id py_round2 (mul_float (PInt 99) (lit 92 100)) = Inr (lit 9108 100)"
    unfolding lit_92_100 lit_9108_100 mul_99_rate by (simp add: round_9108 del: arith_eval)
  have changed: "lit 1087 100 \<noteq> Finite 6119021232840348 (- 49)"
    unfolding lit_1087_100 by simp
  have tie: "py_round2 (lit 125 1000) = lit 12 100"
    unfolding lit_125_1000 lit_12_100 by (rule round_tie)
  have rounded: "py_round2 (Finite 6119021232840348 (- 49)) = lit 1087 100"
    unfolding lit_1087_100 by (rule round_1087)
  show ?thesis
    using general product changed tie rounded
    by (simp only: transfer_scenario transfer_scenario_rounding lit_9108_100 lit_1087_100
        mul_10_rate simp_thms)
qed

theorem transfer_converts_witness:
  "fst (transfer (two_accounts (Bankaccount_init 1 (PInt 500) ''EUR'')
                               (Bankaccount_init 2 (PInt 0) ''USD''))
          0 1 (PyNum (PInt 10)) (PyStr ''EUR'') clock1 clock2) =
     Inr (TransferCompleted (PInt 10) ''EUR'' (PFloat (Finite 6119265993689661 (- 49))) ''USD'')
   \<and> (\<exists>h1 k.
          nearest_hundredth 6119021232840348 (- 49) k
        \<and> float_of_ratio k 100 = Finite 6119265993689661 (- 49)
        \<and> spec_debit (two_accounts (Bankaccount_init 1 (PInt 500) ''EUR'')
                                     (Bankaccount_init 2 (PInt 0) ''USD'')) 0 1 (PInt 10) clock1 =
            Inr h1
        \<and> balance (h1 0) = PInt 490
        \<and> spec_credit h1 0 1 (Finite 6119265993689661 (- 49)) clock2 =
            Inr (snd (transfer (two_accounts (Bankaccount_init 1 (PInt 500) ''EUR'')
                                             (Bankaccount_init 2 (PInt 0) ''USD''))
                        0 1 (PyNum (PInt 10)) (PyStr ''EUR'') clock1 clock2)))"
proof -
  let ?h = "two_accounts (Bankaccount_init 1 (PInt 500) ''EUR'') (Bankaccount_init 2 (PInt 0) ''USD'')"
  have completed: "fst (transfer ?h 0 1 (PyNum (PInt 10)) (PyStr ''EUR'') clock1 clock2) =
     Inr (TransferCompleted (PInt 10) ''EUR'' (PFloat (Finite 6119265993689661 (- 49))) ''USD'')"
    by (simp only: transfer_scenario_rounding fst_conv)
  have cur: "currency (?h 0) = ''EUR''" "currency (?h 1) = ''USD''"
    by (simp_all add: two_accounts_def Bankaccount_init_def)
  from transfer_converts [of ?h 0 1 "PyNum (PInt 10)" "PyStr ''EUR''" clock1 clock2
      "PInt 10" "''EUR''" "PFloat (Finite 6119265993689661 (- 49))" "''USD''"] completed
  obtain rate p h1 where
    rate: "get_exchange_rate (currency (?h 0)) (currency (?h 1)) = Inr (Some rate)"
    and p: "mul_float (PInt 10) rate = Inr p"
    and nearest: "\<forall>m e. p = Finite m e \<longrightarrow>
              (\<exists>k. nearest_hundredth m e k \<and> py_round2 p = float_of_ratio k 100)"
    and debit: "spec_debit ?h 0 1 (PInt 10) clock1 = Inr h1"
    and credit: "spec_credit h1 0 1 (py_round2 p) clock2 =
       Inr (snd (transfer ?h 0 1 (PyNum (PInt 10)) (PyStr ''EUR'') clock1 clock2))"
    by blast
  from rate have rate_eq: "rate = Finite 4895216986272278 (- 52)"
    unfolding cur rate_eur_usd by simp
  from p [unfolded rate_eq mul_10_rate] have p_eq: "p = Finite 6119021232840348 (- 49)"
    by simp
  from nearest p_eq obtain k where k: "nearest_hundredth 6119021232840348 (- 49) k"
    "py_round2 p = float_of_ratio k 100"
    by blast
  have r: "py_round2 p = Finite 6119265993689661 (- 49)"
    unfolding p_eq by (rule round_1087)
  from debit have "balance (h1 0) = PInt 490"
    by (auto simp: spec_debit_def appended_def two_accounts_def Bankaccount_init_def)
  with completed k debit credit show ?thesis
    unfolding r by metis
qed

lemma transfer_outcomes_scenario:
  "\<exists>h1. spec_converted (two_accounts (Bankaccount_init 1 (PInt 500) ''USD'')
                                      (Bankaccount_init 2 (PInt 0) ''EUR'')) 0 1 (PInt 99) =
          Some (Finite 6409185219701637 (- 46))
      \<and> spec_debit (two_accounts (Bankaccount_init 1 (PInt 500) ''USD'')
                                   (Bankaccount_init 2 (PInt 0) ''EUR'')) 0 1 (PInt 99) clock1 =
          Inr h1
      \<and> spec_credit h1 0 1 (Finite 6409185219701637 (- 46)) clock2 =
          Inr (snd (transfer (two_accounts (Bankaccount_init 1 (PInt 500) ''USD'')
                                           (Bankaccount_init 2 (PInt 0) ''EUR''))
                      0 1 (PyNum (PInt 99)) (PyStr ''USD'') clock1 clock2))"
proof -
  let ?h = "two_accounts (Bankaccount_init 1 (PInt 500) ''USD'') (Bankaccount_init 2 (PInt 0) ''EUR'')"
  let ?h' = "snd (transfer ?h 0 1 (PyNum (PInt 99)) (PyStr ''USD'') clock1 clock2)"
  have changed: "?h' \<noteq> ?h"
  proof
    assume "?h' = ?h"
    moreover have "balance (?h' 0) = PInt 401"
      by (simp only: transfer_scenario snd_conv) simp
    moreover have "balance (?h 0) = PInt 500"
      by (simp add: two_accounts_def Bankaccount_init_def)
    ultimately show False by simp
  qed
  have returned: "fst (transfer ?h 0 1 (PyNum (PInt 99)) (PyStr ''USD'') clock1 clock2) \<noteq>
      Inl (OverflowError ''int too large to convert to float'')"
    by (simp only: transfer_scenario fst_conv) simp
  have conv: "spec_converted ?h 0 1 (PInt 99) = Some (Finite 6409185219701637 (- 46))"
    by (simp add: spec_converted_def two_accounts_def Bankaccount_init_def rate_usd_eur
        mul_99_rate round_9108 del: arith_eval)
  from transfer_outcomes [of ?h 0 1 "PyNum (PInt 99)" "PyStr ''USD''" clock1 clock2]
    changed returned
  obtain n c h1 where "PyNum (PInt 99) = PyNum n" "spec_converted ?h 0 1 n = Some c"
    "spec_debit ?h 0 1 n clock1 = Inr h1" "spec_credit h1 0 1 c clock2 = Inr ?h'"
    by (metis fst_conv)
  with conv show ?thesis by auto
qed

lemma add_huge:
  "num_add (PInt huge) (PFloat y) = Inl (OverflowError ''int too large to convert to float'')"
  by (simp add: int_to_float_huge)

text \<open>
  C1. \<open>transfer\<close> validates before it changes anything, but it has no rollback, and it
  catches \<open>ValueError\<close> only. With a source holding 500 USD, a target whose \<open>int\<close> balance
  is \<open>2 ** 1024\<close> and the amount 100, the debit leg is applied; then
  \<open>target_account.balance += converted_amount\<close> adds the float \<open>100.0\<close> to an \<open>int\<close> too
  large to be converted to \<open>float\<close> and raises \<open>OverflowError\<close>, which reaches the caller.
  The source is left debited, with balance 400 and a \<open>transfer_to_2\<close> record in its log,
  and the target is left as it was: one leg of the transfer is applied without the other.
\<close>

theorem transfer_half_applied:
  "transfer (two_accounts (Bankaccount_init 1 (PInt 500) ''USD'')
                          (Bankaccount_init 2 (PInt huge) ''USD''))
       0 1 (PyNum (PInt 100)) (PyStr ''USD'') clock1 clock2 =
     (Inl (OverflowError ''int too large to convert to float''),
      (two_accounts (Bankaccount_init 1 (PInt 500) ''USD'') (Bankaccount_init 2 (PInt huge) ''USD''))
        (0 := \<lparr>account_id = 1, balance = PInt 400, currency = ''USD'',
               transactions =
                 [\<lparr>transaction_id = 1, amount = PInt 100, transaction_type = ''transfer_to_2'',
                   time_stamp = clock1, currency = ''USD''\<rparr>]\<rparr>))
   \<and> snd (transfer (two_accounts (Bankaccount_init 1 (PInt 500) ''USD'')
                                 (Bankaccount_init 2 (PInt huge) ''USD''))
            0 1 (PyNum (PInt 100)) (PyStr ''USD'') clock1 clock2) 1 =
       Bankaccount_init 2 (PInt huge) ''USD''"
  by (simp add: transfer_eval rate_same mul_100_one round_100 add_huge del: arith_eval)

text \<open>
  C3. \<open>deposit\<close> and \<open>withdraw\<close> never raise (\<open>deposit_never_raises\<close>,
  \<open>withdraw_never_raises\<close>), but \<open>transfer\<close> catches \<open>ValueError\<close> only: with an amount
  that is not a number, the comparison \<open>amount <= 0\<close> raises \<open>TypeError\<close>, which
  reaches the caller. Here the amount is \<open>None\<close>.
\<close>

theorem transfer_raises_type_error:
  "transfer (two_accounts (Bankaccount_init 1 (PInt 500) ''USD'')
                          (Bankaccount_init 2 (PInt 300) ''USD''))
       0 1 PyNone (PyStr ''USD'') clock1 clock2 =
     (Inl (TypeError (quoted ''<='' @ '' not supported between instances of '' @
                      quoted ''NoneType'' @ '' and '' @ quoted ''int'')),
      two_accounts (Bankaccount_init 1 (PInt 500) ''USD'') (Bankaccount_init 2 (PInt 300) ''USD''))"
  by (simp add: transfer_def transfer_body_def)

subsection \<open>Transfer to the same account\<close>

text \<open>
  C10, as amended. For every account \<open>a\<close> and every numeric amount \<open>m\<close> with
  \<open>0 < m \<le> a.balance\<close> for which the product \<open>m * 1.0\<close>, the debit \<open>a.balance - m\<close> and
  the credit of \<open>round(m * 1.0, 2)\<close> can be computed (no \<open>int\<close> operand too large to be
  converted to \<open>float\<close>), \<open>transfer(a, a, m, a.currency)\<close> succeeds and appends exactly two
  records to the log of \<open>a\<close>: first \<open>transfer_to_<a.id>\<close> with amount \<open>m\<close> and id
  \<open>old_length + 1\<close>, then \<open>transfer_from_<a.id>\<close> with amount \<open>round(m * 1.0, 2)\<close> and id
  \<open>old_length + 2\<close>. The balance becomes \<open>(a.balance - m) + round(m * 1.0, 2)\<close>, computed
  in floating point; that need not be the old balance.
\<close>

theorem self_transfer:
  assumes "num_lt (PInt 0) n" and "num_le n (balance (h a))"
    and "mul_float n (lit 1 1) = Inr p"
    and "num_sub (balance (h a)) n = Inr b1"
    and "num_add b1 (PFloat (py_round2 p)) = Inr b2"
  shows "transfer h a a (PyNum n) (PyStr (currency (h a))) now1 now2 =
     (Inr (TransferCompleted n (currency (h a)) (formated (py_round2 p)) (currency (h a))),
      h(a := (h a)
         \<lparr>balance := b2,
          transactions := transactions (h a) @
            [\<lparr>transaction_id = int (length (transactions (h a))) + 1, amount = n,
              transaction_type = ''transfer_to_'' @ str_int (account_id (h a)),
              time_stamp = now1, currency = currency (h a)\<rparr>,
             \<lparr>transaction_id = int (length (transactions (h a))) + 2,
              amount = PFloat (py_round2 p),
              transaction_type = ''transfer_from_'' @ str_int (account_id (h a)),
              time_stamp = now2, currency = currency (h a)\<rparr>]\<rparr>))"
proof -
  let ?h1 = "h(a := appended (h a) b1 n (''transfer_to_'' @ str_int (account_id (h a))) now1)"
  let ?h2 = "?h1(a := appended (?h1 a) b2 (PFloat (py_round2 p))
                        (''transfer_from_'' @ str_int (account_id (?h1 a))) now2)"
  have checks: "\<not> num_le n (PInt 0)" "PyStr (currency (h a)) = PyStr (currency (h a))"
    "\<not> num_gt n (balance (h a))"
    using assms(1,2) by (simp_all add: num_lt_not_le num_le_not_gt)
  have conv: "spec_converted h a a n = Some (py_round2 p)"
    using assms(3) by (simp add: spec_converted_def rate_same lit_1_1)
  have debit: "spec_debit h a a n now1 = Inr ?h1"
    using assms(4) by (simp add: spec_debit_def)
  have credit: "spec_credit ?h1 a a (py_round2 p) now2 = Inr ?h2"
    using assms(5) by (simp add: spec_credit_def appended_def)
  have body: "transfer h a a (PyNum n) (PyStr (currency (h a))) now1 now2 =
     (Inr (TransferCompleted n (currency (h a)) (formated (py_round2 p)) (currency (h a))), ?h2)"
    by (rule transfer_reply [OF transfer_body_success [OF checks conv debit credit]])
  have final: "?h2 = h(a := (h a)
         \<lparr>balance := b2,
          transactions := transactions (h a) @
            [\<lparr>transaction_id = int (length (transactions (h a))) + 1, amount = n,
              transaction_type = ''transfer_to_'' @ str_int (account_id (h a)),
              time_stamp = now1, currency = currency (h a)\<rparr>,
             \<lparr>transaction_id = int (length (transactions (h a))) + 2,
              amount = PFloat (py_round2 p),
              transaction_type = ''transfer_from_'' @ str_int (account_id (h a)),
              time_stamp = now2, currency = currency (h a)\<rparr>]\<rparr>)"
    by (simp add: appended_def add.commute)
  show ?thesis
    using body unfolding final .
qed

theorem self_transfer_witness:
  "num_lt (PInt 0) (PInt 100) \<and> num_le (PInt 100) (PInt 500) \<and>
   transfer (two_accounts (Bankaccount_init 1 (PInt 500) ''USD'')
                          (Bankaccount_init 2 (PInt 300) ''USD''))
       0 0 (PyNum (PInt 100)) (PyStr ''USD'') clock1 clock2 =
     (Inr (TransferCompleted (PInt 100) ''USD'' (PInt 100) ''USD''),
      (two_accounts (Bankaccount_init 1 (PInt 500) ''USD'') (Bankaccount_init 2 (PInt 300) ''USD''))
        (0 := \<lparr>account_id = 1, balance = PFloat (Finite 8796093022208000 (- 44)),
               currency = ''USD'',
               transactions =
                 [\<lparr>transaction_id = 1, amount = PInt 100, transaction_type = ''transfer_to_1'',
                   time_stamp = clock1, currency = ''USD''\<rparr>,
                  \<lparr>transaction_id = 2, amount = PFloat (Finite 7036874417766400 (- 46)),
                   transaction_type = ''transfer_from_1'', time_stamp = clock2,
                   currency = ''USD''\<rparr>]\<rparr>))
   \<and> num_eq (PFloat (Finite 8796093022208000 (- 44))) (PInt 500)
   \<and> num_eq (PFloat (Finite 7036874417766400 (- 46))) (PInt 100)"
proof -
  let ?h = "two_accounts (Bankaccount_init 1 (PInt 500) ''USD'') (Bankaccount_init 2 (PInt 300) ''USD'')"
  have a: "?h 0 = \<lparr>account_id = 1, balance = PInt 500, currency = ''USD'', transactions = []\<rparr>"
    by (simp add: two_accounts_def Bankaccount_init_def)
  have order: "num_lt (PInt 0) (PInt 100)" "num_le (PInt 100) (PInt 500)"
    by (simp_all add: num_lt_def num_le_def aligned_def)
  have order': "num_lt (PInt 0) (PInt 100)" "num_le (PInt 100) (balance (?h 0))"
    by (simp_all add: a order)
  have mul: "mul_float (PInt 100) (lit 1 1) = Inr (Finite 7036874417766400 (- 46))"
    by (simp only: lit_1_1 mul_100_one)
  have sub: "num_sub (balance (?h 0)) (PInt 100) = Inr (PInt 400)"
    by (simp add: a)
  have add: "num_add (PInt 400) (PFloat (py_round2 (Finite 7036874417766400 (- 46)))) =
      Inr (PFloat (Finite 8796093022208000 (- 44)))"
    by (simp only: round_100 add_400_100)
  have fmt: "formated (Finite 7036874417766400 (- 46)) = PInt 100"
    by (simp add: formated_def)
  have eq: "num_eq (PFloat (Finite 8796093022208000 (- 44))) (PInt 500)"
    "num_eq (PFloat (Finite 7036874417766400 (- 46))) (PInt 100)"
    by (simp_all add: num_eq_def aligned_def)
  show ?thesis
    using self_transfer [where h = ?h and a = 0 and n = "PInt 100" and ?now1.0 = clock1
        and ?now2.0 = clock2, OF order' mul sub add] order eq
    by (simp add: a fmt round_100 str_int_def str_nat.simps digit_char_def del: arith_eval)
qed

theorem self_transfer_counterexample:
  "num_lt (PInt 0) (PFloat (lit 4 100)) \<and> num_le (PFloat (lit 4 100)) (PFloat (lit 11 100)) \<and>
   py_round2 (lit 4 100) = lit 4 100 \<and>
   fst (transfer (two_accounts (Bankaccount_init 1 (PFloat (lit 11 100)) ''USD'')
                               (Bankaccount_init 2 (PInt 300) ''USD''))
          0 0 (PyNum (PFloat (lit 4 100))) (PyStr ''USD'') clock1 clock2) =
     Inr (TransferCompleted (PFloat (lit 4 100)) ''USD'' (PFloat (lit 4 100)) ''USD'') \<and>
   balance (snd (transfer (two_accounts (Bankaccount_init 1 (PFloat (lit 11 100)) ''USD'')
                                        (Bankaccount_init 2 (PInt 300) ''USD''))
                   0 0 (PyNum (PFloat (lit 4 100))) (PyStr ''USD'') clock1 clock2) 0) =
     PFloat (Finite 7926335344172074 (- 56)) \<and>
   lit 11 100 = Finite 7926335344172073 (- 56) \<and>
   \<not> num_eq (PFloat (Finite 7926335344172074 (- 56))) (PFloat (lit 11 100))"
  unfolding lit_4_100 lit_11_100
  by (simp add: transfer_eval rate_same mul_004_one round_004 sub_011_004 add_007_004
      num_eq_def del: arith_eval)

section \<open>Round trip of the export\<close>

subsection \<open>Writing and reading a timestamp\<close>

lemma digit_cases:
  "(d::nat) < 10 \<Longrightarrow>
     d = 0 \<or> d = 1 \<or> d = 2 \<or> d = 3 \<or> d = 4 \<or> d = 5 \<or> d = 6 \<or> d = 7 \<or> d = 8 \<or> d = 9"
  by arith

lemma digit_val_digit_char: "d < 10 \<Longrightarrow> digit_val (digit_char d) = Some d"
  using digit_cases [of d] by (auto simp: digit_val_def digit_char_def)

lemma digits_val_pad2: "n < 100 \<Longrightarrow> digits_val acc (pad2 n @ r) = digits_val (acc * 100 + n) r"
proof -
  assume n: "n < 100"
  then have d1: "n div 10 < 10" by simp
  have d2: "n mod 10 < 10" by simp
  have eq: "(acc * 10 + n div 10) * 10 + n mod 10 = acc * 100 + n"
  proof -
    have "(acc * 10 + n div 10) * 10 + n mod 10 = acc * 100 + (n div 10 * 10 + n mod 10)"
      by (simp only: distrib_right mult.assoc add.assoc)
    then show ?thesis by (simp only: div_mult_mod_eq)
  qed
  show ?thesis
    unfolding pad2_def
    by (simp only: append_Cons append_Nil digits_val.simps digit_val_digit_char [OF d1]
        digit_val_digit_char [OF d2] option.case eq)
qed

lemma digits_val_pad4:
  "n < 10000 \<Longrightarrow> digits_val acc (pad4 n @ r) = digits_val (acc * 10000 + n) r"
proof -
  assume n: "n < 10000"
  then have hi: "n div 100 < 100" by simp
  have lo: "n mod 100 < 100" by simp
  have eq: "(acc * 100 + n div 100) * 100 + n mod 100 = acc * 10000 + n"
  proof -
    have "(acc * 100 + n div 100) * 100 + n mod 100 = acc * 10000 + (n div 100 * 100 + n mod 100)"
      by (simp only: distrib_right mult.assoc add.assoc)
    then show ?thesis by (simp only: div_mult_mod_eq)
  qed
  show ?thesis
    unfolding pad4_def
    by (simp only: append_assoc digits_val_pad2 [OF hi] digits_val_pad2 [OF lo] eq)
qed

lemma digits_val_pad6:
  "n < 1000000 \<Longrightarrow> digits_val acc (pad6 n @ r) = digits_val (acc * 1000000 + n) r"
proof -
  assume n: "n < 1000000"
  then have hi: "n div 10000 < 100" by simp
  have lo: "n mod 10000 < 10000" by simp
  have eq: "(acc * 100 + n div 10000) * 10000 + n mod 10000 = acc * 1000000 + n"
  proof -
    have "(acc * 100 + n div 10000) * 10000 + n mod 10000 =
          acc * 1000000 + (n div 10000 * 10000 + n mod 10000)"
      by (simp only: distrib_right mult.assoc add.assoc)
    then show ?thesis by (simp only: div_mult_mod_eq)
  qed
  show ?thesis
    unfolding pad6_def
    by (simp only: append_assoc digits_val_pad2 [OF hi] digits_val_pad4 [OF lo] eq)
qed

lemma length_pad: "length (pad2 n) = 2" "length (pad4 n) = 4" "length (pad6 n) = 6"
  by (simp_all add: pad2_def pad4_def pad6_def)

lemma parse_field_pad2: "n < 100 \<Longrightarrow> parse_field 2 (pad2 n @ r) = Some (n, r)"
  using digits_val_pad2 [of n 0 "[]"] by (simp add: parse_field_def length_pad)

lemma parse_field_pad4: "n < 10000 \<Longrightarrow> parse_field 4 (pad4 n @ r) = Some (n, r)"
  using digits_val_pad4 [of n 0 "[]"] by (simp add: parse_field_def length_pad)

lemma parse_field_pad6: "n < 1000000 \<Longrightarrow> parse_field 6 (pad6 n @ r) = Some (n, r)"
  using digits_val_pad6 [of n 0 "[]"] by (simp add: parse_field_def length_pad)

lemma parse_datetime_isoformat:
  assumes "valid_datetime t"
  shows "parse_datetime (isoformat t) = Some t"
proof -
  have b: "year t < 10000" "month t < 100" "day t < 100" "hour t < 100" "minute t < 100"
    "second t < 100" "microsecond t < 1000000"
    using assms by (auto simp: valid_datetime_def days_in_month_def split: if_splits)
  show ?thesis
  proof (cases "microsecond t = 0")
    case True
    have two: "parse_field 2 (pad2 (second t)) = Some (second t, [])"
      using parse_field_pad2 [OF b(6), of "[]"] by simp
    from True show ?thesis
      using b by (simp add: parse_datetime_def isoformat_def parse_field_pad2 parse_field_pad4 two)
  next
    case False
    have six: "parse_field 6 (pad6 (microsecond t)) = Some (microsecond t, [])"
      using parse_field_pad6 [OF b(7), of "[]"] by simp
    from False show ?thesis
      using b by (simp add: parse_datetime_def isoformat_def parse_field_pad2 parse_field_pad4 six)
  qed
qed

lemma parse_written_isoformat: "valid_datetime t \<Longrightarrow> parse_written (isoformat t) = Inr t"
  by (simp add: parse_written_def parse_datetime_isoformat)

lemma valid_clocks: "valid_datetime clock1" "valid_datetime clock2"
  by (simp_all add: valid_datetime_def clock1_def clock2_def days_in_month_def is_leap_def)

lemma isoformat_clocks:
  "isoformat clock1 = ''2024-05-17T10:30:15''"
  "isoformat clock2 = ''2024-05-17T10:30:15.000250''"
  by (simp_all add: isoformat_def clock1_def clock2_def pad2_def pad4_def pad6_def digit_char_def)

subsection \<open>Writing and reading an account\<close>

lemma Transaction_from_dict_to_dict:
  assumes "parse (isoformat (time_stamp t)) = Inr (time_stamp t)"
    and "\<not> strip_is_empty (transaction_type t)"
  shows "Transaction_from_dict parse (Transaction_to_dict t) = Inr t"
  using assms
  by (simp add: Transaction_from_dict_def Transaction_to_dict_def get_item_def bind_exn_def
      fromisoformat_def Transaction_init_def)

lemma load_transactions_to_dict:
  assumes "\<And>t. valid_datetime t \<Longrightarrow> parse (isoformat t) = Inr t"
    and "list_all (\<lambda>t. valid_datetime (time_stamp t) \<and> \<not> strip_is_empty (transaction_type t)) ts"
  shows "load_transactions parse (map Transaction_to_dict ts) acct =
           Inr (acct\<lparr>transactions := transactions acct @ ts\<rparr>)"
  using assms(2)
proof (induction ts arbitrary: acct)
  case Nil
  show ?case by simp
next
  case (Cons t ts)
  from Cons.prems have t: "valid_datetime (time_stamp t)" "\<not> strip_is_empty (transaction_type t)"
    and ts: "list_all (\<lambda>t. valid_datetime (time_stamp t) \<and> \<not> strip_is_empty (transaction_type t)) ts"
    by simp_all
  have "Transaction_from_dict parse (Transaction_to_dict t) = Inr t"
    using assms(1) [OF t(1)] t(2) by (rule Transaction_from_dict_to_dict)
  then show ?case
    by (simp add: bind_exn_def Cons.IH [OF ts])
qed

text \<open>
  C8. Reading what \<open>to_dict\<close> has written gives the account back: the same id, balance
  and currency and the same log, record by record (the same id, amount, kind, currency and
  timestamp, to the microsecond), and nothing is printed. This holds for every account
  whose records are such as the constructor of \<open>Transaction\<close> admits (a timestamp that is
  a date and time of the calendar, a kind that is not blank), with any parser that reads
  back what \<open>isoformat\<close> writes, as \<open>datetime.fromisoformat\<close> does.
\<close>

theorem export_round_trip:
  assumes "\<And>t. valid_datetime t \<Longrightarrow> parse (isoformat t) = Inr t"
    and "well_formed a"
  shows "from_dict parse (to_dict a) = (Inr (Some a), [])"
proof -
  have "load_transactions parse (map Transaction_to_dict (transactions a))
          (Bankaccount_init (account_id a) (balance a) (currency a)) =
        Inr ((Bankaccount_init (account_id a) (balance a) (currency a))
               \<lparr>transactions :=
                  transactions (Bankaccount_init (account_id a) (balance a) (currency a)) @
                  transactions a\<rparr>)"
    using load_transactions_to_dict [of parse "transactions a"] assms
    by (simp add: well_formed_def)
  then show ?thesis
    by (simp add: from_dict_def from_dict_body_def to_dict_def bind_exn_def Bankaccount_init_def)
qed

theorem export_round_trip_witness:
  "well_formed
     \<lparr>account_id = 2, balance = PFloat (lit 9108 100), currency = ''EUR'',
      transactions =
        [\<lparr>transaction_id = 1, amount = PInt 50, transaction_type = ''deposit'',
          time_stamp = clock1, currency = ''EUR''\<rparr>,
         \<lparr>transaction_id = 2, amount = PFloat (lit 9108 100),
          transaction_type = ''transfer_from_1'', time_stamp = clock2, currency = ''EUR''\<rparr>]\<rparr>
   \<and> from_dict parse_written
       (to_dict
          \<lparr>account_id = 2, balance = PFloat (lit 9108 100), currency = ''EUR'',
           transactions =
             [\<lparr>transaction_id = 1, amount = PInt 50, transaction_type = ''deposit'',
               time_stamp = clock1, currency = ''EUR''\<rparr>,
              \<lparr>transaction_id = 2, amount = PFloat (lit 9108 100),
               transaction_type = ''transfer_from_1'', time_stamp = clock2,
               currency = ''EUR''\<rparr>]\<rparr>) =
     (Inr (Some
        \<lparr>account_id = 2, balance = PFloat (lit 9108 100), currency = ''EUR'',
         transactions =
           [\<lparr>transaction_id = 1, amount = PInt 50, transaction_type = ''deposit'',
             time_stamp = clock1, currency = ''EUR''\<rparr>,
            \<lparr>transaction_id = 2, amount = PFloat (lit 9108 100),
             transaction_type = ''transfer_from_1'', time_stamp = clock2,
             currency = ''EUR''\<rparr>]\<rparr>), [])
   \<and> Transaction_to_dict
        \<lparr>transaction_id = 2, amount = PFloat (lit 9108 100),
         transaction_type = ''transfer_from_1'', time_stamp = clock2, currency = ''EUR''\<rparr> =
      PyDict [(''transaction_id'', PyNum (PInt 2)),
              (''amount'', PyNum (PFloat (lit 9108 100))),
              (''transaction_type'', PyStr ''transfer_from_1''),
              (''currency'', PyStr ''EUR''),
              (''time_stamp'', PyStr ''2024-05-17T10:30:15.000250'')]"
proof -
  let ?a = "\<lparr>account_id = 2, balance = PFloat (lit 9108 100), currency = ''EUR'',
      transactions =
        [\<lparr>transaction_id = 1, amount = PInt 50, transaction_type = ''deposit'',
          time_stamp = clock1, currency = ''EUR''\<rparr>,
         \<lparr>transaction_id = 2, amount = PFloat (lit 9108 100),
          transaction_type = ''transfer_from_1'', time_stamp = clock2, currency = ''EUR''\<rparr>]\<rparr>"
  have wf: "well_formed ?a"
    by (simp add: well_formed_def valid_clocks strip_is_empty_def is_space_def)
  have written: "Transaction_to_dict
        \<lparr>transaction_id = 2, amount = PFloat (lit 9108 100),
         transaction_type = ''transfer_from_1'', time_stamp = clock2, currency = ''EUR''\<rparr> =
      PyDict [(''transaction_id'', PyNum (PInt 2)),
              (''amount'', PyNum (PFloat (lit 9108 100))),
              (''transaction_type'', PyStr ''transfer_from_1''),
              (''currency'', PyStr ''EUR''),
              (''time_stamp'', PyStr ''2024-05-17T10:30:15.000250'')]"
    by (simp add: Transaction_to_dict_def isoformat_clocks)
  from export_round_trip [of parse_written ?a, OF parse_written_isoformat wf] wf written
  show ?thesis by (simp only: simp_thms)
qed

text \<open>
  The operations keep a log such as \<open>export_round_trip\<close> asks for: the constructor makes
  an empty log, and every record an operation appends has the reading of the clock for its
  timestamp and one of the kinds \<open>deposit\<close>, \<open>withdraw\<close>, \<open>transfer_to_<id>\<close>,
  \<open>transfer_from_<id>\<close>.
\<close>

lemma well_formed_init: "well_formed (Bankaccount_init aid bal cur)"
  by (simp add: well_formed_def Bankaccount_init_def)

lemma well_formed_appended:
  assumes "well_formed a" and "valid_datetime now" and "\<not> strip_is_empty kind"
  shows "well_formed (appended a b amt kind now)"
  using assms by (simp add: well_formed_def appended_def)

lemma well_formed_deposit:
  assumes "well_formed a" and "valid_datetime now"
  shows "well_formed (snd (deposit a amt cur now))"
  using assms
  by (cases amt)
    (auto simp: deposit_def deposit_body_def Transaction_init_def strip_kinds well_formed_def
      split: sum.splits)

lemma well_formed_withdraw:
  assumes "well_formed a" and "valid_datetime now"
  shows "well_formed (snd (withdraw a amt cur now))"
  using assms
  by (cases amt)
    (auto simp: withdraw_def withdraw_body_def Transaction_init_def strip_kinds well_formed_def
      split: sum.splits)

lemma well_formed_debit:
  assumes "spec_debit h s t n now = Inr h1" and "\<And>a. well_formed (h a)" and "valid_datetime now"
  shows "well_formed (h1 a)"
proof -
  from assms(1) obtain b where
    "h1 = h(s := appended (h s) b n (''transfer_to_'' @ str_int (account_id (h t))) now)"
    by (rule spec_debitD)
  then show ?thesis
    using assms(2) [of a] well_formed_appended [OF assms(2) [of s] assms(3) strip_kinds(3)]
    by simp
qed

lemma well_formed_credit:
  assumes "spec_credit h s t c now = Inr h2" and "\<And>a. well_formed (h a)" and "valid_datetime now"
  shows "well_formed (h2 a)"
proof -
  from assms(1) obtain b where
    "h2 = h(t := appended (h t) b (PFloat c) (''transfer_from_'' @ str_int (account_id (h s))) now)"
    by (rule spec_creditD)
  then show ?thesis
    using assms(2) [of a] well_formed_appended [OF assms(2) [of t] assms(3) strip_kinds(4)]
    by simp
qed

lemma well_formed_transfer:
  assumes wf: "\<And>a. well_formed (h a)" and now: "valid_datetime now1" "valid_datetime now2"
  shows "well_formed (snd (transfer h s t amt cur now1 now2) a)"
proof -
  from transfer_outcomes [of h s t amt cur now1 now2]
  consider "snd (transfer h s t amt cur now1 now2) = h"
    | n c h1 where "spec_debit h s t n now1 = Inr h1"
        "spec_credit h1 s t c now2 = Inr (snd (transfer h s t amt cur now1 now2))"
    | n h1 where "spec_debit h s t n now1 = Inr h1"
        "snd (transfer h s t amt cur now1 now2) = h1"
    by fastforce
  then show ?thesis
  proof cases
    case 1
    with wf show ?thesis by simp
  next
    case 2
    have "well_formed (h1 a)" for a
      by (rule well_formed_debit [OF 2(1) wf now(1)])
    then show ?thesis
      by (rule well_formed_credit [OF 2(2) _ now(2)])
  next
    case 3
    show ?thesis
      unfolding 3(2) by (rule well_formed_debit [OF 3(1) wf now(1)])
  qed
qed

lemma well_formed_exec:
  assumes "\<And>a. well_formed (h a)" and "list_all valid_datetime (clocks c)"
  shows "well_formed (exec h c a)"
proof (cases c)
  case (Deposit a' amt cur now)
  with assms(2) have "valid_datetime now" by simp
  from well_formed_deposit [OF assms(1) this] assms(1) show ?thesis
    by (simp add: Deposit)
next
  case (Withdraw a' amt cur now)
  with assms(2) have "valid_datetime now" by simp
  from well_formed_withdraw [OF assms(1) this] assms(1) show ?thesis
    by (simp add: Withdraw)
next
  case (Transfer s t amt cur now1 now2)
  with assms(2) have now: "valid_datetime now1" "valid_datetime now2" by simp_all
  show ?thesis
    unfolding Transfer exec.simps by (rule well_formed_transfer [OF assms(1) now])
qed

lemma well_formed_foldl:
  assumes "list_all (\<lambda>c. list_all valid_datetime (clocks c)) cmds" and "\<And>a. well_formed (h a)"
  shows "well_formed (foldl exec h cmds a)"
  using assms
proof (induction cmds arbitrary: h)
  case Nil
  then show ?case by simp
next
  case (Cons c cmds)
  from Cons.prems have c: "list_all valid_datetime (clocks c)"
    and cmds: "list_all (\<lambda>c. list_all valid_datetime (clocks c)) cmds"
    by simp_all
  have "well_formed (exec h c a)" for a
    by (rule well_formed_exec [OF Cons.prems(2) c])
  from Cons.IH [OF cmds this] show ?case by simp
qed

subsection \<open>Reading a malformed dictionary\<close>

lemma from_dict_missing_key:
  assumes "account_id_item data = None \<or> balance_item data = None \<or> currency_item data = None"
  shows "from_dict parse data = (Inr None, [''Error loading account from dict''])"
  using assms by (auto simp: from_dict_def from_dict_body_def split: option.splits)

lemma from_dict_missing_account_id:
  "from_dict parse \<lparr>account_id_item = None, balance_item = Some (PInt 100),
                     currency_item = Some ''USD'', transactions_item = None\<rparr> =
     (Inr None, [''Error loading account from dict''])"
  by (rule from_dict_missing_key) simp

lemma from_dict_catches:
  "fst (from_dict parse data) \<noteq> Inl (ValueError m)"
  "fst (from_dict parse data) \<noteq> Inl (KeyError k)"
  by (simp_all add: from_dict_def split: sum.splits exn.splits)

lemma from_dict_record_missing_key:
  "from_dict parse \<lparr>account_id_item = Some 1, balance_item = Some (PInt 100),
                     currency_item = Some ''USD'',
                     transactions_item = Some (PyList [PyDict [(''transaction_id'', PyNum (PInt 1))]])\<rparr> =
     (Inr None, [''Error loading account from dict''])"
  by (simp add: from_dict_def from_dict_body_def bind_exn_def Transaction_from_dict_def
      get_item_def)

text \<open>
  C9. \<open>from_dict\<close> catches \<open>ValueError\<close> and \<open>KeyError\<close> only. A dictionary with every
  required key whose one transaction record has the string \<open>ten\<close> for its amount makes
  the constructor of \<open>Transaction\<close> raise \<open>TypeError\<close>, and a record whose timestamp is
  \<open>None\<close> makes \<open>datetime.fromisoformat\<close> raise \<open>TypeError\<close>, whatever it does on
  strings: in both cases the exception reaches the caller of \<open>from_dict\<close> and nothing is
  printed. (A missing required key, a record with a missing key, a blank kind and a
  timestamp that does not parse are caught and answered with \<open>None\<close>:
  \<open>from_dict_missing_key\<close>, \<open>from_dict_catches\<close>.)
\<close>

theorem from_dict_raises_type_error:
  "from_dict parse_written
     \<lparr>account_id_item = Some 1, balance_item = Some (PInt 100), currency_item = Some ''USD'',
      transactions_item =
        Some (PyList [PyDict [(''transaction_id'', PyNum (PInt 1)),
                              (''amount'', PyStr ''ten''),
                              (''transaction_type'', PyStr ''deposit''),
                              (''currency'', PyStr ''USD''),
                              (''time_stamp'', PyStr ''2024-05-17T10:30:15'')]])\<rparr> =
     (Inl (TypeError ''Amount must be a num''), [])
   \<and> from_dict parse
     \<lparr>account_id_item = Some 1, balance_item = Some (PInt 100), currency_item = Some ''USD'',
      transactions_item =
        Some (PyList [PyDict [(''transaction_id'', PyNum (PInt 1)),
                              (''amount'', PyNum (PInt 10)),
                              (''transaction_type'', PyStr ''deposit''),
                              (''currency'', PyStr ''USD''),
                              (''time_stamp'', PyNone)]])\<rparr> =
     (Inl (TypeError ''fromisoformat: argument must be str''), [])"
proof -
  have stamp: "parse_written ''2024-05-17T10:30:15'' = Inr clock1"
    using parse_written_isoformat [OF valid_clocks(1)] by (simp only: isoformat_clocks)
  show ?thesis
    by (simp add: from_dict_def from_dict_body_def bind_exn_def Transaction_from_dict_def
        get_item_def fromisoformat_def stamp Transaction_init_def)
qed

section \<open>The log as a journal of the balance\<close>





























end
